theory Spec2Isabelle
  imports Main "HOL-Library.Sublist"
begin

section \<open>The training script \<^verbatim>\<open>train.py\<close> as a shallow embedding\<close>

text \<open>
  \<^verbatim>\<open>train.py\<close> trains a variational autoencoder: it parses its arguments, builds the
  data loaders, the model and the optimizer, and runs \<^verbatim>\<open>main\<close>, which calls
  \<^verbatim>\<open>start_training\<close>, which calls \<^verbatim>\<open>train\<close> and \<^verbatim>\<open>test\<close> once per epoch.

  The functions of the script are translated one by one. What the script calls in
  PyTorch, torchvision and in the modules of the repository that are not part of the
  script (\<^verbatim>\<open>utils.torch\<close>, \<^verbatim>\<open>utils.general\<close>, \<^verbatim>\<open>data.stl10\<close>, \<^verbatim>\<open>models\<close>) is a
  field of the record \<open>env\<close>: the theorems hold for every such environment.
  Each function of the script maps a state to a result (an exception or a value), the
  new state and the list of library calls and printed lines it made, in order.
\<close>

subsection \<open>Exceptions\<close>

text \<open>
  The exception classes the script can meet. \<^verbatim>\<open>KeyboardInterrupt\<close> and \<^verbatim>\<open>SystemExit\<close>
  derive from \<^verbatim>\<open>BaseException\<close> only; the others derive from \<^verbatim>\<open>Exception\<close>.
\<close>

datatype py_exc =
    AssertionError
  | ZeroDivisionError
  | TypeError
  | IndexError
  | RuntimeError
  | ValueError
  | OSError
  | KeyboardInterrupt
  | SystemExit

text \<open>\<^verbatim>\<open>isinstance(e, Exception)\<close>: what \<^verbatim>\<open>except Exception\<close> catches.\<close>

fun is_Exception :: "py_exc \<Rightarrow> bool" where
  "is_Exception KeyboardInterrupt = False"
| "is_Exception SystemExit = False"
| "is_Exception _ = True"

subsection \<open>\<^verbatim>\<open>str\<close> of an integer\<close>

definition digit_char :: "nat \<Rightarrow> char" where
  "digit_char d = ''0123456789'' ! d"

function str_nat :: "nat \<Rightarrow> string" where
  "str_nat n = (if n < 10 then [digit_char n] else str_nat (n div 10) @ [digit_char (n mod 10)])"
  by pat_completeness auto
termination
  by (relation "measure (\<lambda>n. n)") auto

declare str_nat.simps [simp del]

definition str :: "int \<Rightarrow> string" where
  "str i = (if i < 0 then CHR ''-'' # str_nat (nat (- i)) else str_nat (nat i))"

subsection \<open>Tensors\<close>

text \<open>
  A tensor is its shape and its elements in row-major order; the elements are Python
  floats, an abstract type \<open>'x\<close>. Only the operations the script itself applies to a
  tensor are modelled: \<^verbatim>\<open>len\<close>, \<^verbatim>\<open>size(0)\<close>, the slice \<^verbatim>\<open>[:n]\<close>, \<^verbatim>\<open>view\<close> with four
  dimensions and \<^verbatim>\<open>torch.cat\<close> of two tensors. Devices (\<^verbatim>\<open>to(device)\<close>, \<^verbatim>\<open>cpu()\<close>) and
  strides are not modelled.
\<close>

record 'x tensor =
  shape :: "nat list"
  data :: "'x list"

definition numel :: "'x tensor \<Rightarrow> nat" where
  "numel t = prod_list (shape t)"

text \<open>\<^verbatim>\<open>len(t)\<close>: a tensor without dimensions has no length.\<close>

definition len :: "'x tensor \<Rightarrow> py_exc + nat" where
  "len t = (case shape t of [] \<Rightarrow> Inl TypeError | d # _ \<Rightarrow> Inr d)"

text \<open>\<^verbatim>\<open>t.size(0)\<close>.\<close>

definition size0 :: "'x tensor \<Rightarrow> py_exc + nat" where
  "size0 t = (case shape t of [] \<Rightarrow> Inl IndexError | d # _ \<Rightarrow> Inr d)"

text \<open>\<^verbatim>\<open>t[:n]\<close> for \<open>n \<ge> 0\<close>: the first \<open>n\<close> rows, or all of them when there are fewer.\<close>

definition slice_to :: "nat \<Rightarrow> 'x tensor \<Rightarrow> py_exc + 'x tensor" where
  "slice_to n t =
     (case shape t of
        [] \<Rightarrow> Inl IndexError
      | d # ds \<Rightarrow> Inr \<lparr>shape = min n d # ds, data = take (min n d * prod_list ds) (data t)\<rparr>)"

text \<open>
  \<^verbatim>\<open>t.view(b, c, h, w)\<close>, where \<open>b\<close> is an \<^verbatim>\<open>int\<close> of the configuration (\<open>-1\<close> asks for
  the dimension to be inferred) and \<open>c\<close>, \<open>h\<close>, \<open>w\<close> are the literals of the data
  configuration. The elements are kept; the new shape must have as many.
\<close>

definition view4 :: "int \<Rightarrow> nat \<Rightarrow> nat \<Rightarrow> nat \<Rightarrow> 'x tensor \<Rightarrow> py_exc + 'x tensor" where
  "view4 b c h w t =
     (if b = - 1 then
        (if c * h * w \<noteq> 0 \<and> numel t mod (c * h * w) = 0
         then Inr \<lparr>shape = [numel t div (c * h * w), c, h, w], data = data t\<rparr>
         else Inl RuntimeError)
      else if b < 0 then Inl RuntimeError
      else if nat b * c * h * w = numel t
        then Inr \<lparr>shape = [nat b, c, h, w], data = data t\<rparr>
        else Inl RuntimeError)"

text \<open>
  \<^verbatim>\<open>torch.cat([a, b])\<close> along dimension 0. A tensor of shape \<open>[0]\<close> is skipped; otherwise
  both tensors need a first dimension and equal remaining dimensions.
\<close>

definition cat :: "'x tensor \<Rightarrow> 'x tensor \<Rightarrow> py_exc + 'x tensor" where
  "cat a b =
     (if shape a = [0] then Inr b
      else if shape b = [0] then Inr a
      else if shape a = [] \<or> shape b = [] then Inl RuntimeError
      else if tl (shape a) = tl (shape b)
        then Inr \<lparr>shape = (hd (shape a) + hd (shape b)) # tl (shape a), data = data a @ data b\<rparr>
        else Inl RuntimeError)"

subsection \<open>Arguments and configuration\<close>

text \<open>The namespace \<^verbatim>\<open>args\<close> that \<^verbatim>\<open>parser.parse_args()\<close> returns.\<close>

record 'x args =
  arg_lr :: 'x
  arg_epochs :: int
  arg_optimizer :: string
  arg_cuda :: bool
  arg_num_workers :: int
  arg_batch_size :: int
  arg_output_dir_name :: string
  arg_log_interval :: int

record TrainingConfig =
  cuda :: bool
  batch_size :: int
  log_interval :: int
  epochs :: int
  output_dir_name :: string

record DatasetConfig =
  image_size :: nat
  channels :: nat

text \<open>The optimizer object: its class and the learning rate it was built with.\<close>

datatype 'x optimizer = Adam 'x | Adagrad 'x | Adadelta 'x

subsection \<open>State, calls and environment\<close>

text \<open>
  The state the script works on through the library: the model's parameters, their
  \<^verbatim>\<open>.grad\<close> fields, the optimizer's own state, the model's \<^verbatim>\<open>training\<close> flag, the
  autograd switch that \<^verbatim>\<open>torch.no_grad()\<close> turns off, and \<open>world\<close>: everything else a
  library call may read and change (random generators, batch-norm statistics, the
  file system).
\<close>

record ('p, 'g, 'o, 'w) torch_state =
  params :: 'p
  grads :: 'g
  opt_state :: 'o
  training :: bool
  grad_enabled :: bool
  world :: 'w

text \<open>
  The calls the script makes and the lines it prints, with their arguments. \<open>Forward\<close>
  carries the \<^verbatim>\<open>training\<close> flag and the autograd switch at the time of the call.
  Printed lines carry the arguments of \<^verbatim>\<open>format\<close>, not the formatted text.
\<close>

datatype ('x, 'l) event =
    MakeDirectory string
  | LogModelOptimizer "'x optimizer"
  | ModelTrain
  | ModelEval
  | IterLoader bool
  | Forward bool bool "'x tensor"
  | ELBO "'x tensor" "'x tensor" "'x tensor" "'x tensor"
  | ZeroGrad
  | Backward 'l
  | OptimizerStep
  | PrintProgress int nat nat 'x 'x
  | PrintEpochAverage int 'x
  | SaveImage "'x tensor" string nat
  | PrintTestLoss 'x
  | SaveTrainingData "'x list" "'x list" string
  | PrintTraceback string

text \<open>
  A data loader: \<^verbatim>\<open>len(loader)\<close>, \<^verbatim>\<open>len(loader.dataset)\<close>, and the batches one iteration
  over it yields (the labels, which the script drops, are left out). With
  \<^verbatim>\<open>shuffle=True\<close> an iteration draws from the random generator, so it reads and
  changes \<open>world\<close>. The batches of one iteration are taken at its start.
\<close>

record ('x, 'w) loader =
  loader_len :: nat
  dataset_len :: nat
  batches :: "'w \<Rightarrow> 'x tensor list \<times> 'w"

text \<open>
  The environment: the library functions the script calls. \<open>'x\<close> is the Python float,
  \<open>'l\<close> a scalar tensor with its autograd graph (a loss).
  \<^item> \<open>forward\<close> is \<^verbatim>\<open>model(data_batch)\<close>: it reads the parameters, the two flags and
    \<open>world\<close>, and returns \<^verbatim>\<open>(recon_batch, mu, log_var)\<close>;
  \<^item> \<open>reconstruction_term\<close>, \<open>kl_divergence\<close>, \<open>loss_add\<close> are the parts of the loss; each
    term may raise, as on tensors whose shapes do not fit;
  \<^item> \<open>item\<close> is \<^verbatim>\<open>loss.item()\<close>;
  \<^item> \<open>zero_grad\<close>, \<open>backward\<close>, \<open>optimizer_step\<close> are \<^verbatim>\<open>optimizer.zero_grad()\<close>,
    \<^verbatim>\<open>loss.backward()\<close>, \<^verbatim>\<open>optimizer.step()\<close>;
  \<^item> \<open>float_of_int\<close>, \<open>float_add\<close>, \<open>float_mul\<close>, \<open>float_div\<close> are float arithmetic;
  \<^item> \<open>io\<close> is the outcome of a call that works on the file system
    (\<^verbatim>\<open>make_directory\<close>, \<^verbatim>\<open>log\<close>, \<^verbatim>\<open>save_image\<close>, \<^verbatim>\<open>save_training_data\<close>);
  \<^item> \<open>format_exc\<close> is \<^verbatim>\<open>traceback.format_exc()\<close> for the exception being handled;
  \<^item> \<open>cuda_is_available\<close> is \<^verbatim>\<open>torch.cuda.is_available()\<close>;
  \<^item> \<open>stl10_loaders\<close> is \<^verbatim>\<open>data.stl10.get_loaders\<close> for a batch size.
\<close>

record ('x, 'l, 'p, 'g, 'o, 'w) env =
  forward :: "'p \<Rightarrow> bool \<Rightarrow> bool \<Rightarrow> 'w \<Rightarrow> 'x tensor
                \<Rightarrow> py_exc + (('x tensor \<times> 'x tensor \<times> 'x tensor) \<times> 'w)"
  reconstruction_term :: "'x tensor \<Rightarrow> 'x tensor \<Rightarrow> py_exc + 'l"
  kl_divergence :: "'x tensor \<Rightarrow> 'x tensor \<Rightarrow> py_exc + 'l"
  loss_add :: "'l \<Rightarrow> 'l \<Rightarrow> 'l"
  item :: "'l \<Rightarrow> 'x"
  zero_grad :: "'g \<Rightarrow> 'g"
  backward :: "'l \<Rightarrow> 'g \<Rightarrow> py_exc + 'g"
  optimizer_step :: "'x optimizer \<Rightarrow> 'p \<Rightarrow> 'g \<Rightarrow> 'o \<Rightarrow> py_exc + ('p \<times> 'o)"
  float_of_int :: "int \<Rightarrow> 'x"
  float_add :: "'x \<Rightarrow> 'x \<Rightarrow> 'x"
  float_mul :: "'x \<Rightarrow> 'x \<Rightarrow> 'x"
  float_div :: "'x \<Rightarrow> 'x \<Rightarrow> 'x"
  io :: "('x, 'l) event \<Rightarrow> 'w \<Rightarrow> py_exc option \<times> 'w"
  format_exc :: "py_exc \<Rightarrow> string"
  cuda_is_available :: bool
  stl10_loaders :: "int \<Rightarrow> ('x, 'w) loader \<times> ('x, 'w) loader"

subsection \<open>Programs\<close>

text \<open>
  A program maps a state to its result (\<open>Inl\<close> an exception raised, \<open>Inr\<close> a value
  returned), the state it leaves and the events it emitted. \<open>bind\<close> is sequencing:
  an exception in the first program skips the second.
\<close>

type_synonym ('a, 's, 'e) prog = "'s \<Rightarrow> (py_exc + 'a) \<times> 's \<times> 'e list"

definition return :: "'a \<Rightarrow> ('a, 's, 'e) prog" where
  "return a s = (Inr a, s, [])"

definition raise :: "py_exc \<Rightarrow> ('a, 's, 'e) prog" where
  "raise e s = (Inl e, s, [])"

definition lift :: "py_exc + 'a \<Rightarrow> ('a, 's, 'e) prog" where
  "lift r s = (r, s, [])"

definition emit :: "'e \<Rightarrow> (unit, 's, 'e) prog" where
  "emit ev s = (Inr (), s, [ev])"

definition bind :: "('a, 's, 'e) prog \<Rightarrow> ('a \<Rightarrow> ('b, 's, 'e) prog) \<Rightarrow> ('b, 's, 'e) prog" where
  "bind m f s =
     (case m s of
        (Inl e, s1, t1) \<Rightarrow> (Inl e, s1, t1)
      | (Inr a, s1, t1) \<Rightarrow> (case f a s1 of (r, s2, t2) \<Rightarrow> (r, s2, t1 @ t2)))"

text \<open>
  Python's true division of a float by an \<^verbatim>\<open>int\<close>: the \<^verbatim>\<open>int\<close> is converted to a float,
  and a zero divisor raises.
\<close>

definition truediv ::
  "('x, 'l, 'p, 'g, 'o, 'w) env \<Rightarrow> 'x \<Rightarrow> int \<Rightarrow> py_exc + 'x" where
  "truediv env x n =
     (if n = 0 then Inl ZeroDivisionError else Inr (float_div env x (float_of_int env n)))"

subsection \<open>The library calls\<close>

type_synonym ('a, 'x, 'l, 'p, 'g, 'o, 'w) tprog =
  "('a, ('p, 'g, 'o, 'w) torch_state, ('x, 'l) event) prog"

text \<open>A call on the file system: it may raise, and it changes \<open>world\<close> only.\<close>

definition call_io ::
  "('x, 'l, 'p, 'g, 'o, 'w) env \<Rightarrow> ('x, 'l) event \<Rightarrow> (unit, 'x, 'l, 'p, 'g, 'o, 'w) tprog" where
  "call_io env ev s =
     (case io env ev (world s) of
        (Some e, w) \<Rightarrow> (Inl e, s\<lparr>world := w\<rparr>, [ev])
      | (None, w) \<Rightarrow> (Inr (), s\<lparr>world := w\<rparr>, [ev]))"

text \<open>\<^verbatim>\<open>model.train()\<close> and \<^verbatim>\<open>model.eval()\<close> set the \<^verbatim>\<open>training\<close> flag.\<close>

definition model_train :: "(unit, 'x, 'l, 'p, 'g, 'o, 'w) tprog" where
  "model_train s = (Inr (), s\<lparr>training := True\<rparr>, [ModelTrain])"

definition model_eval :: "(unit, 'x, 'l, 'p, 'g, 'o, 'w) tprog" where
  "model_eval s = (Inr (), s\<lparr>training := False\<rparr>, [ModelEval])"

text \<open>
  \<^verbatim>\<open>enumerate(loader)\<close>: the batches of this iteration. The flag of the event tells the
  training loader (\<open>True\<close>) from the test loader.
\<close>

definition iterate ::
  "bool \<Rightarrow> ('x, 'w) loader \<Rightarrow> ('x tensor list, 'x, 'l, 'p, 'g, 'o, 'w) tprog" where
  "iterate is_train ld s =
     (case batches ld (world s) of (bs, w) \<Rightarrow> (Inr bs, s\<lparr>world := w\<rparr>, [IterLoader is_train]))"

text \<open>\<^verbatim>\<open>recon_batch, mu, log_var = model(data_batch)\<close>.\<close>

definition call_forward ::
  "('x, 'l, 'p, 'g, 'o, 'w) env \<Rightarrow> 'x tensor
     \<Rightarrow> ('x tensor \<times> 'x tensor \<times> 'x tensor, 'x, 'l, 'p, 'g, 'o, 'w) tprog" where
  "call_forward env data_batch s =
     (case forward env (params s) (training s) (grad_enabled s) (world s) data_batch of
        Inl e \<Rightarrow> (Inl e, s, [Forward (training s) (grad_enabled s) data_batch])
      | Inr (out, w) \<Rightarrow>
          (Inr out, s\<lparr>world := w\<rparr>, [Forward (training s) (grad_enabled s) data_batch]))"

text \<open>
  Modelled from the spec: \<^verbatim>\<open>utils.torch.variational_ELBO\<close> is not part of the script.
  The specification gives it as a reconstruction term plus a Kullback-Leibler term
  between the approximate posterior (mean and log-variance) and a standard normal prior.
  The two terms and the addition of scalar tensors belong to the environment. When a
  term raises, the loss raises.
\<close>

definition variational_ELBO ::
  "('x, 'l, 'p, 'g, 'o, 'w) env \<Rightarrow> 'x tensor \<Rightarrow> 'x tensor \<Rightarrow> 'x tensor \<Rightarrow> 'x tensor
     \<Rightarrow> py_exc + 'l" where
  "variational_ELBO env recon_x x mu log_var =
     (case reconstruction_term env recon_x x of
        Inl e \<Rightarrow> Inl e
      | Inr reconstruction \<Rightarrow>
          (case kl_divergence env mu log_var of
             Inl e \<Rightarrow> Inl e
           | Inr kl \<Rightarrow> Inr (loss_add env reconstruction kl)))"

text \<open>The call of \<^verbatim>\<open>variational_ELBO\<close> in the script: it returns the loss or raises.\<close>

definition call_variational_ELBO ::
  "('x, 'l, 'p, 'g, 'o, 'w) env \<Rightarrow> 'x tensor \<Rightarrow> 'x tensor \<Rightarrow> 'x tensor \<Rightarrow> 'x tensor
     \<Rightarrow> ('l, 'x, 'l, 'p, 'g, 'o, 'w) tprog" where
  "call_variational_ELBO env recon_x x mu log_var s =
     (variational_ELBO env recon_x x mu log_var, s, [ELBO recon_x x mu log_var])"

text \<open>\<^verbatim>\<open>optimizer.zero_grad()\<close> changes the gradients only.\<close>

definition call_zero_grad ::
  "('x, 'l, 'p, 'g, 'o, 'w) env \<Rightarrow> (unit, 'x, 'l, 'p, 'g, 'o, 'w) tprog" where
  "call_zero_grad env s = (Inr (), s\<lparr>grads := zero_grad env (grads s)\<rparr>, [ZeroGrad])"

text \<open>\<^verbatim>\<open>loss.backward()\<close> adds to the gradients.\<close>

definition call_backward ::
  "('x, 'l, 'p, 'g, 'o, 'w) env \<Rightarrow> 'l \<Rightarrow> (unit, 'x, 'l, 'p, 'g, 'o, 'w) tprog" where
  "call_backward env loss s =
     (case backward env loss (grads s) of
        Inl e \<Rightarrow> (Inl e, s, [Backward loss])
      | Inr g \<Rightarrow> (Inr (), s\<lparr>grads := g\<rparr>, [Backward loss]))"

text \<open>\<^verbatim>\<open>optimizer.step()\<close> reads the gradients and changes parameters and optimizer state.\<close>

definition call_step ::
  "('x, 'l, 'p, 'g, 'o, 'w) env \<Rightarrow> 'x optimizer \<Rightarrow> (unit, 'x, 'l, 'p, 'g, 'o, 'w) tprog" where
  "call_step env optimizer s =
     (case optimizer_step env optimizer (params s) (grads s) (opt_state s) of
        Inl e \<Rightarrow> (Inl e, s, [OptimizerStep])
      | Inr (p, os) \<Rightarrow> (Inr (), s\<lparr>params := p, opt_state := os\<rparr>, [OptimizerStep]))"

text \<open>
  \<^verbatim>\<open>with torch.no_grad():\<close> turns the autograd switch off for its body and restores
  it on the way out, also when the body raises.
\<close>

definition no_grad :: "('a, 'x, 'l, 'p, 'g, 'o, 'w) tprog \<Rightarrow> ('a, 'x, 'l, 'p, 'g, 'o, 'w) tprog" where
  "no_grad body s =
     (case body (s\<lparr>grad_enabled := False\<rparr>) of
        (r, s1, t) \<Rightarrow> (r, s1\<lparr>grad_enabled := grad_enabled s\<rparr>, t))"

subsection \<open>\<^verbatim>\<open>train\<close>\<close>

text \<open>
  The body of the loop of \<^verbatim>\<open>train\<close> for the batch \<open>data_batch\<close> at index \<open>batch_idx\<close>.
  \<open>train_loss\<close> and \<open>epoch_loss\<close> are the two local variables the loop updates.
  \<^verbatim>\<open>batch_idx % config.log_interval\<close> raises when the interval is zero; Python's \<^verbatim>\<open>%\<close>
  on integers is \<open>mod\<close>.
\<close>

definition train_batch ::
  "('x, 'l, 'p, 'g, 'o, 'w) env \<Rightarrow> TrainingConfig \<Rightarrow> 'x optimizer \<Rightarrow> ('x, 'w) loader
     \<Rightarrow> int \<Rightarrow> nat \<Rightarrow> 'x tensor \<Rightarrow> 'x \<times> 'x list
     \<Rightarrow> ('x \<times> 'x list, 'x, 'l, 'p, 'g, 'o, 'w) tprog" where
  "train_batch env config optimizer train_loader current_epoch batch_idx data_batch acc =
     (case acc of (train_loss, epoch_loss) \<Rightarrow>
      bind (call_forward env data_batch) (\<lambda>(recon_batch, mu, log_var).
      bind (call_variational_ELBO env recon_batch data_batch mu log_var) (\<lambda>loss.
      bind (call_zero_grad env) (\<lambda>_.
      bind (call_backward env loss) (\<lambda>_.
      bind (call_step env optimizer) (\<lambda>_.
      bind (lift (len data_batch)) (\<lambda>n.
      bind (lift (truediv env (item env loss) (int n))) (\<lambda>per_sample.
      if log_interval config = 0 then raise ZeroDivisionError
      else if int batch_idx mod log_interval config = 0 then
        bind (lift (truediv env
                 (float_mul env (float_of_int env 100) (float_of_int env (int batch_idx)))
                 (int (loader_len train_loader)))) (\<lambda>percent.
        bind (emit (PrintProgress current_epoch (batch_idx * n) (dataset_len train_loader)
                 percent per_sample)) (\<lambda>_.
        return (float_add env train_loss (item env loss), epoch_loss @ [per_sample])))
      else return (float_add env train_loss (item env loss), epoch_loss @ [per_sample])))))))))"

text \<open>The loop \<^verbatim>\<open>for batch_idx, (data_batch, _) in enumerate(train_loader)\<close>.\<close>

fun train_loop ::
  "('x, 'l, 'p, 'g, 'o, 'w) env \<Rightarrow> TrainingConfig \<Rightarrow> 'x optimizer \<Rightarrow> ('x, 'w) loader
     \<Rightarrow> int \<Rightarrow> nat \<Rightarrow> 'x tensor list \<Rightarrow> 'x \<times> 'x list
     \<Rightarrow> ('x \<times> 'x list, 'x, 'l, 'p, 'g, 'o, 'w) tprog" where
  "train_loop env config optimizer train_loader current_epoch batch_idx [] acc = return acc"
| "train_loop env config optimizer train_loader current_epoch batch_idx (data_batch # rest) acc =
     bind (train_batch env config optimizer train_loader current_epoch batch_idx data_batch acc)
       (train_loop env config optimizer train_loader current_epoch (Suc batch_idx) rest)"

text \<open>
  \<^verbatim>\<open>train(current_epoch)\<close>. \<^verbatim>\<open>train_loss\<close> starts as the integer \<open>0\<close>, which the first
  addition converts to a float.
\<close>

definition train ::
  "('x, 'l, 'p, 'g, 'o, 'w) env \<Rightarrow> TrainingConfig \<Rightarrow> 'x optimizer \<Rightarrow> ('x, 'w) loader
     \<Rightarrow> int \<Rightarrow> ('x list, 'x, 'l, 'p, 'g, 'o, 'w) tprog" where
  "train env config optimizer train_loader current_epoch =
     bind model_train (\<lambda>_.
     bind (iterate True train_loader) (\<lambda>bs.
     bind (train_loop env config optimizer train_loader current_epoch 0 bs
             (float_of_int env 0, [])) (\<lambda>(train_loss, epoch_loss).
     bind (lift (truediv env train_loss (int (dataset_len train_loader)))) (\<lambda>average.
     bind (emit (PrintEpochAverage current_epoch average)) (\<lambda>_.
     return epoch_loss)))))"

subsection \<open>\<^verbatim>\<open>test\<close>\<close>

text \<open>
  The body of the loop of \<^verbatim>\<open>test\<close> for the batch \<open>data_batch\<close> at index \<open>i\<close>; for the
  first batch it builds the comparison image and saves it.
\<close>

definition test_batch ::
  "('x, 'l, 'p, 'g, 'o, 'w) env \<Rightarrow> TrainingConfig \<Rightarrow> DatasetConfig
     \<Rightarrow> int \<Rightarrow> nat \<Rightarrow> 'x tensor \<Rightarrow> 'x \<Rightarrow> ('x, 'x, 'l, 'p, 'g, 'o, 'w) tprog" where
  "test_batch env config data_config current_epoch i data_batch test_loss =
     bind (call_forward env data_batch) (\<lambda>(recon_batch, mu, log_var).
     bind (call_variational_ELBO env recon_batch data_batch mu log_var) (\<lambda>loss.
     if i = 0 then
       bind (lift (size0 data_batch)) (\<lambda>sz.
       bind (lift (slice_to (min sz 8) data_batch)) (\<lambda>originals.
       bind (lift (view4 (batch_size config) (channels data_config) (image_size data_config)
                     (image_size data_config) recon_batch)) (\<lambda>viewed.
       bind (lift (slice_to (min sz 8) viewed)) (\<lambda>reconstructions.
       bind (lift (cat originals reconstructions)) (\<lambda>comparison.
       bind (call_io env (SaveImage comparison
                 (output_dir_name config @ ''/reconstruction_'' @ str current_epoch @ ''.png'')
                 (min sz 8))) (\<lambda>_.
       return (float_add env test_loss (item env loss))))))))
     else return (float_add env test_loss (item env loss))))"

fun test_loop ::
  "('x, 'l, 'p, 'g, 'o, 'w) env \<Rightarrow> TrainingConfig \<Rightarrow> DatasetConfig
     \<Rightarrow> int \<Rightarrow> nat \<Rightarrow> 'x tensor list \<Rightarrow> 'x \<Rightarrow> ('x, 'x, 'l, 'p, 'g, 'o, 'w) tprog" where
  "test_loop env config data_config current_epoch i [] test_loss = return test_loss"
| "test_loop env config data_config current_epoch i (data_batch # rest) test_loss =
     bind (test_batch env config data_config current_epoch i data_batch test_loss)
       (test_loop env config data_config current_epoch (Suc i) rest)"

text \<open>\<^verbatim>\<open>test(current_epoch)\<close>.\<close>

definition test ::
  "('x, 'l, 'p, 'g, 'o, 'w) env \<Rightarrow> TrainingConfig \<Rightarrow> DatasetConfig \<Rightarrow> ('x, 'w) loader
     \<Rightarrow> int \<Rightarrow> ('x, 'x, 'l, 'p, 'g, 'o, 'w) tprog" where
  "test env config data_config test_loader current_epoch =
     bind model_eval (\<lambda>_.
     bind (no_grad
             (bind (iterate False test_loader) (\<lambda>bs.
              test_loop env config data_config current_epoch 0 bs (float_of_int env 0))))
       (\<lambda>test_loss.
     bind (lift (truediv env test_loss (int (dataset_len test_loader)))) (\<lambda>test_loss.
     bind (emit (PrintTestLoss test_loss)) (\<lambda>_.
     return test_loss))))"

subsection \<open>\<^verbatim>\<open>start_training\<close> and \<^verbatim>\<open>main\<close>\<close>

text \<open>
  The loop \<^verbatim>\<open>for epoch in range(1, config.epochs + 1)\<close> over the epochs still to run,
  with the two histories.
\<close>

fun epoch_loop ::
  "('x, 'l, 'p, 'g, 'o, 'w) env \<Rightarrow> TrainingConfig \<Rightarrow> DatasetConfig \<Rightarrow> 'x optimizer
     \<Rightarrow> ('x, 'w) loader \<Rightarrow> ('x, 'w) loader \<Rightarrow> int list \<Rightarrow> 'x list \<times> 'x list
     \<Rightarrow> ('x list \<times> 'x list, 'x, 'l, 'p, 'g, 'o, 'w) tprog" where
  "epoch_loop env config data_config optimizer train_loader test_loader [] hist = return hist"
| "epoch_loop env config data_config optimizer train_loader test_loader (epoch # rest) hist =
     bind (train env config optimizer train_loader epoch) (\<lambda>epoch_train_loss.
     bind (test env config data_config test_loader epoch) (\<lambda>epoch_test_loss.
     epoch_loop env config data_config optimizer train_loader test_loader rest
       (fst hist @ epoch_train_loss, snd hist @ [epoch_test_loss])))"

definition start_training ::
  "('x, 'l, 'p, 'g, 'o, 'w) env \<Rightarrow> TrainingConfig \<Rightarrow> DatasetConfig \<Rightarrow> 'x optimizer
     \<Rightarrow> ('x, 'w) loader \<Rightarrow> ('x, 'w) loader \<Rightarrow> (unit, 'x, 'l, 'p, 'g, 'o, 'w) tprog" where
  "start_training env config data_config optimizer train_loader test_loader =
     bind (epoch_loop env config data_config optimizer train_loader test_loader
             [1..epochs config] ([], []))
       (\<lambda>(historic_training_loss, historic_testing_loss).
     call_io env (SaveTrainingData historic_training_loss historic_testing_loss
                    (output_dir_name config)))"

text \<open>
  \<^verbatim>\<open>try: body except Exception as e: handler\<close>: the handler runs for an exception that
  is an instance of \<^verbatim>\<open>Exception\<close>; any other exception propagates.
\<close>

definition try_except_Exception ::
  "('a, 's, 'e) prog \<Rightarrow> (py_exc \<Rightarrow> ('a, 's, 'e) prog) \<Rightarrow> ('a, 's, 'e) prog" where
  "try_except_Exception body handler s =
     (case body s of
        (Inl e, s1, t1) \<Rightarrow>
          (if is_Exception e
           then (case handler e s1 of (r, s2, t2) \<Rightarrow> (r, s2, t1 @ t2))
           else (Inl e, s1, t1))
      | (Inr a, s1, t1) \<Rightarrow> (Inr a, s1, t1))"

text \<open>
  \<^verbatim>\<open>main()\<close> returns \<^verbatim>\<open>None\<close>, or the formatted traceback when training raised. The
  decorator \<^verbatim>\<open>slack_sender\<close>, which reports the outcome to a Slack channel, is not
  modelled.
\<close>

definition main ::
  "('x, 'l, 'p, 'g, 'o, 'w) env \<Rightarrow> TrainingConfig \<Rightarrow> DatasetConfig \<Rightarrow> 'x optimizer
     \<Rightarrow> ('x, 'w) loader \<Rightarrow> ('x, 'w) loader \<Rightarrow> (string option, 'x, 'l, 'p, 'g, 'o, 'w) tprog" where
  "main env config data_config optimizer train_loader test_loader =
     bind (call_io env (MakeDirectory (output_dir_name config))) (\<lambda>_.
     try_except_Exception
       (bind (start_training env config data_config optimizer train_loader test_loader)
          (\<lambda>_. return None))
       (\<lambda>e. bind (emit (PrintTraceback (format_exc env e))) (\<lambda>_.
            return (Some (format_exc env e)))))"

subsection \<open>The module level of the script\<close>

definition make_config :: "('x, 'l, 'p, 'g, 'o, 'w) env \<Rightarrow> 'x args \<Rightarrow> TrainingConfig" where
  "make_config env a =
     \<lparr>cuda = (arg_cuda a \<and> cuda_is_available env), batch_size = arg_batch_size a,
      log_interval = arg_log_interval a, epochs = arg_epochs a,
      output_dir_name = arg_output_dir_name a\<rparr>"

definition data_config :: DatasetConfig where
  "data_config = \<lparr>image_size = 96, channels = 3\<rparr>"

text \<open>
  The assertion on \<^verbatim>\<open>args.optimizer\<close> and the choice of the optimizer class that
  follows it. Assertions are taken as checked, as they are unless Python runs with
  \<^verbatim>\<open>-O\<close>.
\<close>

definition select_optimizer :: "'x args \<Rightarrow> py_exc + 'x optimizer" where
  "select_optimizer a =
     (if arg_optimizer a \<notin> set [''adam'', ''adagrad'', ''adadelta''] then Inl AssertionError
      else if arg_optimizer a = ''adam'' then Inr (Adam (arg_lr a))
      else if arg_optimizer a = ''adagrad'' then Inr (Adagrad (arg_lr a))
      else Inr (Adadelta (arg_lr a)))"

text \<open>
  The script from the parsed arguments on: the configuration, the loaders, the
  assertion and the optimizer, \<^verbatim>\<open>log\<close>, and the call of \<^verbatim>\<open>main\<close>. The state it starts in
  holds the parameters of the freshly built model.
\<close>

definition script ::
  "('x, 'l, 'p, 'g, 'o, 'w) env \<Rightarrow> 'x args \<Rightarrow> (string option, 'x, 'l, 'p, 'g, 'o, 'w) tprog" where
  "script env a =
     (case stl10_loaders env (batch_size (make_config env a)) of (train_loader, test_loader) \<Rightarrow>
      bind (lift (select_optimizer a)) (\<lambda>optimizer.
      bind (call_io env (LogModelOptimizer optimizer)) (\<lambda>_.
      main env (make_config env a) data_config optimizer train_loader test_loader)))"

section \<open>What a run looks like\<close>

subsection \<open>Events without the values computed at run time\<close>

text \<open>
  An \<open>op\<close> is an event without the tensors and floats the run computed: it keeps which
  call it was, the batch it was made on, the flags, the epoch and the file name. The
  order of calls in a run is stated on the ops of its events.
\<close>

datatype 'x op =
    OpMakeDirectory string
  | OpLogModelOptimizer
  | OpModelTrain
  | OpModelEval
  | OpIterLoader bool
  | OpForward bool bool "'x tensor"
  | OpELBO "'x tensor"
  | OpZeroGrad
  | OpBackward
  | OpOptimizerStep
  | OpPrintProgress int nat
  | OpPrintEpochAverage int
  | OpSaveImage string nat
  | OpPrintTestLoss
  | OpSaveTrainingData string
  | OpPrintTraceback

fun op_of :: "('x, 'l) event \<Rightarrow> 'x op" where
  "op_of (MakeDirectory d) = OpMakeDirectory d"
| "op_of (LogModelOptimizer _) = OpLogModelOptimizer"
| "op_of ModelTrain = OpModelTrain"
| "op_of ModelEval = OpModelEval"
| "op_of (IterLoader b) = OpIterLoader b"
| "op_of (Forward tr ge x) = OpForward tr ge x"
| "op_of (ELBO _ x _ _) = OpELBO x"
| "op_of ZeroGrad = OpZeroGrad"
| "op_of (Backward _) = OpBackward"
| "op_of OptimizerStep = OpOptimizerStep"
| "op_of (PrintProgress e done _ _ _) = OpPrintProgress e done"
| "op_of (PrintEpochAverage e _) = OpPrintEpochAverage e"
| "op_of (SaveImage _ f n) = OpSaveImage f n"
| "op_of (PrintTestLoss _) = OpPrintTestLoss"
| "op_of (SaveTrainingData _ _ d) = OpSaveTrainingData d"
| "op_of (PrintTraceback _) = OpPrintTraceback"

fun is_progress :: "'x op \<Rightarrow> bool" where
  "is_progress (OpPrintProgress _ _) = True"
| "is_progress _ = False"

fun is_print :: "'x op \<Rightarrow> bool" where
  "is_print (OpPrintProgress _ _) = True"
| "is_print (OpPrintEpochAverage _) = True"
| "is_print OpPrintTestLoss = True"
| "is_print OpPrintTraceback = True"
| "is_print _ = False"

text \<open>The calls that compute or apply gradients.\<close>

fun is_grad_op :: "'x op \<Rightarrow> bool" where
  "is_grad_op OpZeroGrad = True"
| "is_grad_op OpBackward = True"
| "is_grad_op OpOptimizerStep = True"
| "is_grad_op _ = False"

fun is_forward :: "'x op \<Rightarrow> bool" where
  "is_forward (OpForward _ _ _) = True"
| "is_forward _ = False"

fun is_save_image :: "('x, 'l) event \<Rightarrow> bool" where
  "is_save_image (SaveImage _ _ _) = True"
| "is_save_image _ = False"

fun is_elbo :: "('x, 'l) event \<Rightarrow> bool" where
  "is_elbo (ELBO _ _ _ _) = True"
| "is_elbo _ = False"

fun is_save_training_data :: "('x, 'l) event \<Rightarrow> bool" where
  "is_save_training_data (SaveTrainingData _ _ _) = True"
| "is_save_training_data _ = False"

subsection \<open>The ops of a training pass and of a test pass\<close>

text \<open>The five calls of one training step on the batch \<open>d\<close>, in the order of the source.\<close>

definition gradient_step_ops :: "bool \<Rightarrow> bool \<Rightarrow> 'x tensor \<Rightarrow> 'x op list" where
  "gradient_step_ops tr ge d =
     [OpForward tr ge d, OpELBO d, OpZeroGrad, OpBackward, OpOptimizerStep]"

text \<open>One training step with its progress line, for the batch \<open>d\<close> at index \<open>batch_idx\<close>.\<close>

definition train_step_ops ::
  "TrainingConfig \<Rightarrow> bool \<Rightarrow> bool \<Rightarrow> int \<Rightarrow> nat \<times> 'x tensor \<Rightarrow> 'x op list" where
  "train_step_ops config tr ge current_epoch p =
     (case p of (batch_idx, d) \<Rightarrow>
        gradient_step_ops tr ge d @
        (if int batch_idx mod log_interval config = 0
         then [OpPrintProgress current_epoch (batch_idx * hd (shape d))] else []))"

definition train_ops :: "TrainingConfig \<Rightarrow> bool \<Rightarrow> int \<Rightarrow> 'x tensor list \<Rightarrow> 'x op list" where
  "train_ops config ge current_epoch bs =
     OpModelTrain # OpIterLoader True #
     concat (map (train_step_ops config True ge current_epoch) (enumerate 0 bs)) @
     [OpPrintEpochAverage current_epoch]"

definition reconstruction_file :: "TrainingConfig \<Rightarrow> int \<Rightarrow> string" where
  "reconstruction_file config current_epoch =
     output_dir_name config @ ''/reconstruction_'' @ str current_epoch @ ''.png''"

definition test_step_ops ::
  "TrainingConfig \<Rightarrow> bool \<Rightarrow> bool \<Rightarrow> int \<Rightarrow> nat \<times> 'x tensor \<Rightarrow> 'x op list" where
  "test_step_ops config tr ge current_epoch p =
     (case p of (i, d) \<Rightarrow>
        [OpForward tr ge d, OpELBO d] @
        (if i = 0
         then [OpSaveImage (reconstruction_file config current_epoch) (min (hd (shape d)) 8)]
         else []))"

definition test_ops :: "TrainingConfig \<Rightarrow> int \<Rightarrow> 'x tensor list \<Rightarrow> 'x op list" where
  "test_ops config current_epoch bs =
     OpModelEval # OpIterLoader False #
     concat (map (test_step_ops config False False current_epoch) (enumerate 0 bs)) @
     [OpPrintTestLoss]"

text \<open>
  One epoch: a training pass over the batches \<open>tb\<close>, then a test pass over the batches
  \<open>eb\<close>.
\<close>

definition epoch_ops ::
  "TrainingConfig \<Rightarrow> bool \<Rightarrow> int \<times> 'x tensor list \<times> 'x tensor list \<Rightarrow> 'x op list" where
  "epoch_ops config ge p =
     (case p of (epoch, tb, eb) \<Rightarrow> train_ops config ge epoch tb @ test_ops config epoch eb)"

text \<open>The parameters, gradients and optimizer state of two states are the same.\<close>

definition same_model :: "('p, 'g, 'o, 'w) torch_state \<Rightarrow> ('p, 'g, 'o, 'w) torch_state \<Rightarrow> bool" where
  "same_model s s' \<longleftrightarrow> params s' = params s \<and> grads s' = grads s \<and> opt_state s' = opt_state s"

subsection \<open>Values read off a trace\<close>

text \<open>The losses \<^verbatim>\<open>backward\<close> was called on, in order.\<close>

fun backward_loss :: "('x, 'l) event \<Rightarrow> 'l option" where
  "backward_loss (Backward l) = Some l"
| "backward_loss _ = None"

definition backward_losses :: "('x, 'l) event list \<Rightarrow> 'l list" where
  "backward_losses t = List.map_filter backward_loss t"

text \<open>The test losses printed, in order.\<close>

fun printed_test_loss :: "('x, 'l) event \<Rightarrow> 'x option" where
  "printed_test_loss (PrintTestLoss x) = Some x"
| "printed_test_loss _ = None"

definition printed_test_losses :: "('x, 'l) event list \<Rightarrow> 'x list" where
  "printed_test_losses t = List.map_filter printed_test_loss t"



text \<open>
  The per-sample loss \<^verbatim>\<open>loss.item() / len(data_batch)\<close> that \<^verbatim>\<open>train\<close> records for a
  batch whose first dimension is not zero.
\<close>

definition per_sample ::
  "('x, 'l, 'p, 'g, 'o, 'w) env \<Rightarrow> 'l \<Rightarrow> 'x tensor \<Rightarrow> 'x" where
  "per_sample env loss d =
     float_div env (item env loss) (float_of_int env (int (hd (shape d))))"

subsection \<open>The steps of a pass\<close>

text \<open>
  \<open>model_output env P tr ge x out\<close>: the model, with parameters in \<open>P\<close> and the two
  flags \<open>tr\<close> and \<open>ge\<close>, returns \<open>out\<close> (reconstruction, mean, log-variance) on the
  batch \<open>x\<close>.
\<close>

definition model_output ::
  "('x, 'l, 'p, 'g, 'o, 'w) env \<Rightarrow> 'p set \<Rightarrow> bool \<Rightarrow> bool \<Rightarrow> 'x tensor
     \<Rightarrow> 'x tensor \<times> 'x tensor \<times> 'x tensor \<Rightarrow> bool" where
  "model_output env P tr ge x out \<longleftrightarrow>
     (\<exists>p \<in> P. \<exists>w w'. forward env p tr ge w x = Inr (out, w'))"

text \<open>
  A step of a pass on the batch \<open>x\<close> is the output of the model and the loss computed
  from it: \<open>loss_step\<close> says that the output is one of the model on \<open>x\<close> and that the
  loss is the ELBO of this output and \<open>x\<close>.
\<close>

definition loss_step ::
  "('x, 'l, 'p, 'g, 'o, 'w) env \<Rightarrow> 'p set \<Rightarrow> bool \<Rightarrow> bool
     \<Rightarrow> ('x tensor \<times> 'x tensor \<times> 'x tensor) \<times> 'l \<Rightarrow> 'x tensor \<Rightarrow> bool" where
  "loss_step env P tr ge step x \<longleftrightarrow>
     model_output env P tr ge x (fst step) \<and>
     variational_ELBO env (fst (fst step)) x (fst (snd (fst step))) (snd (snd (fst step))) =
       Inr (snd step)"

text \<open>The call of the loss function in such a step.\<close>

definition elbo_event ::
  "('x tensor \<times> 'x tensor \<times> 'x tensor) \<times> 'l \<Rightarrow> 'x tensor \<Rightarrow> ('x, 'l) event" where
  "elbo_event step x = ELBO (fst (fst step)) x (fst (snd (fst step))) (snd (snd (fst step)))"

subsection \<open>Statements about every outcome of a program\<close>

text \<open>
  \<open>run_ops ks m s\<close>: run from \<open>s\<close>, the program \<open>m\<close> makes the calls \<open>ks\<close>, in order,
  when it returns, and a first part of them when it raises; it leaves the two flags
  as they were.
\<close>

definition run_ops ::
  "'x op list \<Rightarrow> ('a, 'x, 'l, 'p, 'g, 'o, 'w) tprog \<Rightarrow> ('p, 'g, 'o, 'w) torch_state \<Rightarrow> bool" where
  "run_ops ks m s \<longleftrightarrow>
     (case m s of (r, s', t) \<Rightarrow>
        prefix (map op_of t) ks \<and> (\<not> isl r \<longrightarrow> map op_of t = ks) \<and>
        training s' = training s \<and> grad_enabled s' = grad_enabled s)"

text \<open>\<open>keeps_model m\<close>: whatever its outcome, \<open>m\<close> leaves the model and optimizer alone.\<close>

definition keeps_model :: "('a, 'x, 'l, 'p, 'g, 'o, 'w) tprog \<Rightarrow> bool" where
  "keeps_model m \<longleftrightarrow> (\<forall>s r s' t. m s = (r, s', t) \<longrightarrow> same_model s s')"

section \<open>A small environment to run the script in\<close>

text \<open>
  Floats, losses, parameters and gradients are integers here; the model adds its
  parameter to every pixel, and every optimizer step adds one to the parameter. The
  model raises \<open>failure\<close> once the parameter has reached \<open>limit\<close>.
\<close>

definition demo_forward ::
  "int \<Rightarrow> py_exc \<Rightarrow> int \<Rightarrow> bool \<Rightarrow> bool \<Rightarrow> nat \<Rightarrow> int tensor
     \<Rightarrow> py_exc + ((int tensor \<times> int tensor \<times> int tensor) \<times> nat)" where
  "demo_forward limit failure p tr ge w x =
     (if limit \<le> p then Inl failure
      else Inr ((\<lparr>shape = shape x, data = map (\<lambda>v. v + p) (data x)\<rparr>,
                 \<lparr>shape = [hd (shape x), 1], data = replicate (hd (shape x)) p\<rparr>,
                 \<lparr>shape = [hd (shape x), 1], data = replicate (hd (shape x)) 0\<rparr>), Suc w))"

definition demo_loader :: "int tensor list \<Rightarrow> (int, nat) loader" where
  "demo_loader bs =
     \<lparr>loader_len = length bs, dataset_len = sum_list (map (\<lambda>b. hd (shape b)) bs),
      batches = (\<lambda>w. (bs, Suc w))\<rparr>"

definition demo_env :: "int \<Rightarrow> py_exc \<Rightarrow> (int, int, int, int, nat, nat) env" where
  "demo_env limit failure =
     \<lparr>forward = demo_forward limit failure,
      reconstruction_term =
        (\<lambda>r x. Inr (sum_list (map2 (\<lambda>a b. (a - b) * (a - b)) (data r) (data x)))),
      kl_divergence = (\<lambda>m v. Inr (sum_list (data m))),
      loss_add = (+),
      item = (\<lambda>l. l),
      zero_grad = (\<lambda>g. 0),
      backward = (\<lambda>l g. Inr (g + l)),
      optimizer_step = (\<lambda>opt p g os. Inr (p + 1, Suc os)),
      float_of_int = (\<lambda>i. i),
      float_add = (+),
      float_mul = (*),
      float_div = (div),
      io = (\<lambda>ev w. (None, Suc w)),
      format_exc = (\<lambda>e. ''Traceback (most recent call last)''),
      cuda_is_available = False,
      stl10_loaders = (\<lambda>b. (demo_loader [], demo_loader []))\<rparr>"

definition demo_config :: "int \<Rightarrow> TrainingConfig" where
  "demo_config n =
     \<lparr>cuda = False, batch_size = 2, log_interval = 2, epochs = n, output_dir_name = ''results''\<rparr>"

definition demo_data_config :: DatasetConfig where
  "demo_data_config = \<lparr>image_size = 1, channels = 1\<rparr>"

text \<open>A batch of images of one pixel each.\<close>

definition demo_batch :: "int list \<Rightarrow> int tensor" where
  "demo_batch xs = \<lparr>shape = [length xs, 1, 1, 1], data = xs\<rparr>"

definition demo_train_loader :: "(int, nat) loader" where
  "demo_train_loader = demo_loader [demo_batch [1, 2], demo_batch [3, 4], demo_batch [5, 6]]"

definition demo_test_loader :: "(int, nat) loader" where
  "demo_test_loader = demo_loader [demo_batch [1, 2], demo_batch [3, 4]]"

definition demo_state :: "(int, int, nat, nat) torch_state" where
  "demo_state =
     \<lparr>params = 0, grads = 0, opt_state = 0, training = False, grad_enabled = True, world = 0\<rparr>"

definition demo_args :: "string \<Rightarrow> int args" where
  "demo_args opt =
     \<lparr>arg_lr = 1, arg_epochs = 2, arg_optimizer = opt, arg_cuda = True, arg_num_workers = 2,
      arg_batch_size = 2, arg_output_dir_name = ''results'', arg_log_interval = 2\<rparr>"

section \<open>Reading the epochs off a trace\<close>



section \<open>Properties\<close>

subsection \<open>Sequencing\<close>

lemma bind_cases:
  assumes "bind m f s = (r, s', t)"
  obtains (raised) e where "m s = (Inl e, s', t)" and "r = Inl e"
  | (returned) a s1 t1 t2 where "m s = (Inr a, s1, t1)" and "f a s1 = (r, s', t2)"
      and "t = t1 @ t2"
  using assms unfolding bind_def
  by (auto split: prod.splits sum.splits)

lemma bind_Inr:
  assumes "bind m f s = (Inr b, s', t)"
  obtains a s1 t1 t2 where "m s = (Inr a, s1, t1)" and "f a s1 = (Inr b, s', t2)"
    and "t = t1 @ t2"
  using assms by (rule bind_cases) auto

lemma bind_lift_Inr:
  assumes "bind (lift x) f s = (Inr b, s', t)"
  obtains a where "x = Inr a" and "f a s = (Inr b, s', t)"
  using assms by (cases x) (auto simp: bind_def lift_def split: prod.splits)

lemma bind_model_train:
  "bind model_train f s =
     (case f () (s\<lparr>training := True\<rparr>) of (r, s', t) \<Rightarrow> (r, s', ModelTrain # t))"
  by (simp add: bind_def model_train_def)

lemma bind_model_eval:
  "bind model_eval f s =
     (case f () (s\<lparr>training := False\<rparr>) of (r, s', t) \<Rightarrow> (r, s', ModelEval # t))"
  by (simp add: bind_def model_eval_def)

lemma bind_iterate:
  "bind (iterate b ld) f s =
     (case f (fst (batches ld (world s))) (s\<lparr>world := snd (batches ld (world s))\<rparr>) of
        (r, s', t) \<Rightarrow> (r, s', IterLoader b # t))"
  by (simp add: bind_def iterate_def split: prod.splits)

subsection \<open>The calls of a program, whatever its outcome\<close>

lemma run_opsD:
  assumes "run_ops ks m s" and "m s = (r, s', t)"
  shows "prefix (map op_of t) ks" and "\<not> isl r \<Longrightarrow> map op_of t = ks"
    and "training s' = training s" and "grad_enabled s' = grad_enabled s"
  using assms by (simp_all add: run_ops_def)

lemma run_ops_bind:
  assumes m: "run_ops ks1 m s"
    and f: "\<And>a s1. training s1 = training s \<Longrightarrow> grad_enabled s1 = grad_enabled s
              \<Longrightarrow> run_ops ks2 (f a) s1"
  shows "run_ops (ks1 @ ks2) (bind m f) s"
proof -
  obtain r s' t where b: "bind m f s = (r, s', t)"
    by (cases "bind m f s") auto
  from b have "prefix (map op_of t) (ks1 @ ks2) \<and> (\<not> isl r \<longrightarrow> map op_of t = ks1 @ ks2) \<and>
        training s' = training s \<and> grad_enabled s' = grad_enabled s"
  proof (cases rule: bind_cases)
    case (raised e)
    with run_opsD [OF m raised(1)] show ?thesis
      by (simp add: prefix_def) (metis append.assoc)
  next
    case (returned a s1 t1 t2)
    from run_opsD [OF m returned(1)]
    have h: "map op_of t1 = ks1" "training s1 = training s" "grad_enabled s1 = grad_enabled s"
      by simp_all
    from run_opsD [OF f [OF h(2,3)] returned(2)] h returned(3) show ?thesis
      by simp
  qed
  with b show ?thesis by (simp add: run_ops_def)
qed

lemma run_ops_return: "run_ops [] (return a) s"
  by (simp add: run_ops_def return_def)

lemma run_ops_raise: "run_ops ks (raise e) s"
  by (simp add: run_ops_def raise_def)

lemma run_ops_emit: "run_ops [op_of ev] (emit ev) s"
  by (simp add: run_ops_def emit_def)

lemma run_ops_call_io: "run_ops [op_of ev] (call_io env ev) s"
  by (simp add: run_ops_def call_io_def split: prod.splits option.splits)

lemma run_ops_call_forward:
  "run_ops [OpForward (training s) (grad_enabled s) d] (call_forward env d) s"
  by (simp add: run_ops_def call_forward_def split: prod.splits sum.splits)

lemma run_ops_call_variational_ELBO:
  "run_ops [OpELBO x] (call_variational_ELBO env r x m v) s"
  by (simp add: run_ops_def call_variational_ELBO_def)

lemma run_ops_call_zero_grad: "run_ops [OpZeroGrad] (call_zero_grad env) s"
  by (simp add: run_ops_def call_zero_grad_def)

lemma run_ops_call_backward: "run_ops [OpBackward] (call_backward env l) s"
  by (simp add: run_ops_def call_backward_def split: sum.splits)

lemma run_ops_call_step: "run_ops [OpOptimizerStep] (call_step env opt) s"
  by (simp add: run_ops_def call_step_def split: sum.splits prod.splits)

lemma run_ops_lift_bind:
  assumes "\<And>a. r = Inr a \<Longrightarrow> run_ops ks (f a) s"
  shows "run_ops ks (bind (lift r) f) s"
  using assms by (cases r) (simp_all add: run_ops_def bind_def lift_def split: prod.splits)

lemma run_ops_iterate_bind:
  assumes "run_ops ks (f (fst (batches ld (world s)))) (s\<lparr>world := snd (batches ld (world s))\<rparr>)"
  shows "run_ops (OpIterLoader b # ks) (bind (iterate b ld) f) s"
  using assms by (simp add: run_ops_def bind_iterate split: prod.splits)

lemma run_ops_no_grad:
  assumes "run_ops ks body (s\<lparr>grad_enabled := False\<rparr>)"
  shows "run_ops ks (no_grad body) s"
  using assms by (simp add: run_ops_def no_grad_def split: prod.splits)

subsection \<open>The calls of a training pass\<close>

lemma len_Inr: "len d = Inr n \<Longrightarrow> n = hd (shape d)"
  by (auto simp: len_def split: list.splits)

lemma size0_Inr: "size0 d = Inr n \<Longrightarrow> n = hd (shape d)"
  by (auto simp: size0_def split: list.splits)

lemma progress_run_ops:
  "run_ops (if int i mod log_interval config = 0 then [OpPrintProgress e (i * n)] else [])
     (if log_interval config = 0 then raise ZeroDivisionError
      else if int i mod log_interval config = 0 then
        bind (lift (truediv env
                 (float_mul env (float_of_int env 100) (float_of_int env (int i)))
                 (int (loader_len ld)))) (\<lambda>percent.
        bind (emit (PrintProgress e (i * n) (dataset_len ld) percent ps)) (\<lambda>_.
        return acc'))
      else return acc') s1"
proof -
  have em: "run_ops [OpPrintProgress e (i * n)]
      (emit (PrintProgress e (i * n) (dataset_len ld) percent ps)) s1" for percent
    using run_ops_emit [of "PrintProgress e (i * n) (dataset_len ld) percent ps" s1] by simp
  have "run_ops ([OpPrintProgress e (i * n)] @ [])
      (bind (emit (PrintProgress e (i * n) (dataset_len ld) percent ps)) (\<lambda>_. return acc')) s1"
    for percent
    by (rule run_ops_bind [OF em run_ops_return])
  then show ?thesis
    by (auto intro!: run_ops_raise run_ops_return run_ops_lift_bind)
qed

lemma train_batch_run_ops:
  "run_ops (train_step_ops config (training s) (grad_enabled s) e (i, d))
     (train_batch env config optimizer ld e i d acc) s"
proof -
  have "run_ops ([OpForward (training s) (grad_enabled s) d] @ [OpELBO d] @ [OpZeroGrad] @
      [OpBackward] @ [OpOptimizerStep] @
      (if int i mod log_interval config = 0 then [OpPrintProgress e (i * hd (shape d))] else []))
     (train_batch env config optimizer ld e i d acc) s"
    unfolding train_batch_def case_prod_beta
    apply (rule run_ops_bind, rule run_ops_call_forward)
    apply (rule run_ops_bind, rule run_ops_call_variational_ELBO)
    apply (rule run_ops_bind, rule run_ops_call_zero_grad)
    apply (rule run_ops_bind, rule run_ops_call_backward)
    apply (rule run_ops_bind, rule run_ops_call_step)
    apply (rule run_ops_lift_bind)
    apply (rule run_ops_lift_bind)
    apply (drule len_Inr)
    apply hypsubst
    apply (rule progress_run_ops)
    done
  then show ?thesis
    by (simp add: train_step_ops_def gradient_step_ops_def)
qed

lemma train_loop_run_ops:
  fixes s :: "('p, 'g, 'o, 'w) torch_state"
  shows "run_ops (concat (map (train_step_ops config (training s) (grad_enabled s) e) (enumerate i bs)))
     (train_loop env config optimizer ld e i bs acc) s"
proof (induction bs arbitrary: i acc s)
  case Nil
  show ?case by (simp add: run_ops_return)
next
  case (Cons d rest)
  have "run_ops (train_step_ops config (training s) (grad_enabled s) e (i, d) @
      concat (map (train_step_ops config (training s) (grad_enabled s) e) (enumerate (Suc i) rest)))
     (bind (train_batch env config optimizer ld e i d acc)
        (train_loop env config optimizer ld e (Suc i) rest)) s"
  proof (rule run_ops_bind [OF train_batch_run_ops])
    fix a and s1 :: "('p, 'g, 'o, 'w) torch_state"
    assume "training s1 = training s" and "grad_enabled s1 = grad_enabled s"
    with Cons.IH [of s1 "Suc i" a]
    show "run_ops (concat (map (train_step_ops config (training s) (grad_enabled s) e)
        (enumerate (Suc i) rest))) (train_loop env config optimizer ld e (Suc i) rest a) s1"
      by simp
  qed
  then show ?case by simp
qed

lemma epoch_average_run_ops:
  "run_ops ([OpPrintEpochAverage e] @ [])
     (bind (emit (PrintEpochAverage e average)) (\<lambda>_. return x)) s"
  using run_ops_bind [OF run_ops_emit [of "PrintEpochAverage e average" s] run_ops_return]
  by simp

lemma train_trace:
  assumes "train env config optimizer ld e s = (r, s', t)"
  shows "prefix (map op_of t) (train_ops config (grad_enabled s) e (fst (batches ld (world s))))"
    and "\<not> isl r \<Longrightarrow>
           map op_of t = train_ops config (grad_enabled s) e (fst (batches ld (world s)))"
    and "training s' = True" and "grad_enabled s' = grad_enabled s"
proof -
  let ?bs = "fst (batches ld (world s))"
  let ?s1 = "s\<lparr>training := True, world := snd (batches ld (world s))\<rparr>"
  let ?rest = "bind (train_loop env config optimizer ld e 0 ?bs (float_of_int env 0, []))
      (\<lambda>p. bind (lift (truediv env (fst p) (int (dataset_len ld)))) (\<lambda>average.
           bind (emit (PrintEpochAverage e average)) (\<lambda>_. return (snd p))))"
  have "run_ops (concat (map (train_step_ops config (training ?s1) (grad_enabled ?s1) e)
      (enumerate 0 ?bs)) @ [OpPrintEpochAverage e] @ []) ?rest ?s1"
    apply (rule run_ops_bind [OF train_loop_run_ops])
    apply (rule run_ops_lift_bind)
    apply (rule epoch_average_run_ops)
    done
  moreover obtain r1 s1 t1 where rest: "?rest ?s1 = (r1, s1, t1)"
    by (cases "?rest ?s1") auto
  ultimately have h: "prefix (map op_of t1)
       (concat (map (train_step_ops config True (grad_enabled s) e) (enumerate 0 ?bs)) @
        [OpPrintEpochAverage e])"
    "\<not> isl r1 \<Longrightarrow> map op_of t1 =
       concat (map (train_step_ops config True (grad_enabled s) e) (enumerate 0 ?bs)) @
        [OpPrintEpochAverage e]"
    "training s1 = True" "grad_enabled s1 = grad_enabled s"
    by (simp_all add: run_ops_def)
  from assms rest have eq: "r = r1" "s' = s1" "t = ModelTrain # IterLoader True # t1"
    by (simp_all add: train_def bind_model_train bind_iterate case_prod_unfold)
  from h eq show "prefix (map op_of t) (train_ops config (grad_enabled s) e ?bs)"
    and "\<not> isl r \<Longrightarrow> map op_of t = train_ops config (grad_enabled s) e ?bs"
    and "training s' = True" and "grad_enabled s' = grad_enabled s"
    by (simp_all add: train_ops_def)
qed

subsection \<open>The calls of a test pass\<close>

lemma save_image_run_ops:
  "run_ops [OpSaveImage f n] (bind (call_io env (SaveImage c f n)) (\<lambda>_. return x)) s"
  using run_ops_bind [OF run_ops_call_io [of "SaveImage c f n" env s] run_ops_return]
  by simp

lemma test_batch_run_ops:
  "run_ops (test_step_ops config (training s) (grad_enabled s) e (i, d))
     (test_batch env config dc e i d test_loss) s"
proof -
  have "run_ops ([OpForward (training s) (grad_enabled s) d] @ [OpELBO d] @
      (if i = 0 then [OpSaveImage (reconstruction_file config e) (min (hd (shape d)) 8)] else []))
     (test_batch env config dc e i d test_loss) s"
    unfolding test_batch_def case_prod_beta
    apply (rule run_ops_bind, rule run_ops_call_forward)
    apply (rule run_ops_bind, rule run_ops_call_variational_ELBO)
    apply (cases "i = 0")
     apply (simp add: reconstruction_file_def)
     apply (rule run_ops_lift_bind)
     apply (drule size0_Inr)
     apply hypsubst
     apply (rule run_ops_lift_bind)
     apply (rule run_ops_lift_bind)
     apply (rule run_ops_lift_bind)
     apply (rule run_ops_lift_bind)
     apply (rule save_image_run_ops)
    apply (simp add: run_ops_return)
    done
  then show ?thesis
    by (simp add: test_step_ops_def)
qed

lemma test_loop_run_ops:
  fixes s :: "('p, 'g, 'o, 'w) torch_state"
  shows "run_ops (concat (map (test_step_ops config (training s) (grad_enabled s) e) (enumerate i bs)))
     (test_loop env config dc e i bs test_loss) s"
proof (induction bs arbitrary: i test_loss s)
  case Nil
  show ?case by (simp add: run_ops_return)
next
  case (Cons d rest)
  have "run_ops (test_step_ops config (training s) (grad_enabled s) e (i, d) @
      concat (map (test_step_ops config (training s) (grad_enabled s) e) (enumerate (Suc i) rest)))
     (bind (test_batch env config dc e i d test_loss)
        (test_loop env config dc e (Suc i) rest)) s"
  proof (rule run_ops_bind [OF test_batch_run_ops])
    fix a and s1 :: "('p, 'g, 'o, 'w) torch_state"
    assume "training s1 = training s" and "grad_enabled s1 = grad_enabled s"
    with Cons.IH [of s1 "Suc i" a]
    show "run_ops (concat (map (test_step_ops config (training s) (grad_enabled s) e)
        (enumerate (Suc i) rest))) (test_loop env config dc e (Suc i) rest a) s1"
      by simp
  qed
  then show ?case by simp
qed

lemma test_loss_run_ops:
  "run_ops ([OpPrintTestLoss] @ []) (bind (emit (PrintTestLoss x)) (\<lambda>_. return y)) s"
  using run_ops_bind [OF run_ops_emit [of "PrintTestLoss x" s] run_ops_return]
  by simp

lemma test_trace:
  assumes "test env config dc ld e s = (r, s', t)"
  shows "prefix (map op_of t) (test_ops config e (fst (batches ld (world s))))"
    and "\<not> isl r \<Longrightarrow> map op_of t = test_ops config e (fst (batches ld (world s)))"
    and "training s' = False" and "grad_enabled s' = grad_enabled s"
proof -
  let ?bs = "fst (batches ld (world s))"
  let ?s1 = "s\<lparr>training := False\<rparr>"
  let ?rest = "bind (no_grad (bind (iterate False ld) (\<lambda>bs.
        test_loop env config dc e 0 bs (float_of_int env 0))))
      (\<lambda>test_loss. bind (lift (truediv env test_loss (int (dataset_len ld)))) (\<lambda>test_loss.
           bind (emit (PrintTestLoss test_loss)) (\<lambda>_. return test_loss)))"
  have loop: "run_ops (concat (map (test_step_ops config False False e) (enumerate 0 ?bs)))
      (test_loop env config dc e 0 ?bs (float_of_int env 0))
      (s\<lparr>training := False, grad_enabled := False, world := snd (batches ld (world s))\<rparr>)"
    using test_loop_run_ops [of config
        "s\<lparr>training := False, grad_enabled := False, world := snd (batches ld (world s))\<rparr>"]
    by simp
  have "run_ops ((OpIterLoader False #
      concat (map (test_step_ops config False False e) (enumerate 0 ?bs))) @
      [OpPrintTestLoss] @ []) ?rest ?s1"
    apply (rule run_ops_bind)
     apply (rule run_ops_no_grad)
     apply (rule run_ops_iterate_bind)
    using loop apply simp
    apply (rule run_ops_lift_bind)
    apply (rule test_loss_run_ops)
    done
  moreover obtain r1 s1 t1 where rest: "?rest ?s1 = (r1, s1, t1)"
    by (cases "?rest ?s1") auto
  ultimately have h: "prefix (map op_of t1)
       (OpIterLoader False #
        concat (map (test_step_ops config False False e) (enumerate 0 ?bs)) @ [OpPrintTestLoss])"
    "\<not> isl r1 \<Longrightarrow> map op_of t1 =
       OpIterLoader False #
        concat (map (test_step_ops config False False e) (enumerate 0 ?bs)) @ [OpPrintTestLoss]"
    "training s1 = False" "grad_enabled s1 = grad_enabled s"
    by (simp_all add: run_ops_def)
  from assms rest have eq: "r = r1" "s' = s1" "t = ModelEval # t1"
    by (simp_all add: test_def bind_model_eval)
  from h eq show "prefix (map op_of t) (test_ops config e ?bs)"
    and "\<not> isl r \<Longrightarrow> map op_of t = test_ops config e ?bs"
    and "training s' = False" and "grad_enabled s' = grad_enabled s"
    by (simp_all add: test_ops_def)
qed

subsection \<open>What a test pass leaves alone\<close>

lemma same_model_refl: "same_model s s"
  by (simp add: same_model_def)

lemma same_model_trans: "same_model s s1 \<Longrightarrow> same_model s1 s2 \<Longrightarrow> same_model s s2"
  by (simp add: same_model_def)

lemma keeps_modelD: "keeps_model m \<Longrightarrow> m s = (r, s', t) \<Longrightarrow> same_model s s'"
  by (auto simp: keeps_model_def)

lemma keeps_model_bind:
  assumes "keeps_model m" and "\<And>a. keeps_model (f a)"
  shows "keeps_model (bind m f)"
  unfolding keeps_model_def
proof (intro allI impI)
  fix s r s' t
  assume "bind m f s = (r, s', t)"
  then show "same_model s s'"
  proof (cases rule: bind_cases)
    case (raised e)
    with assms(1) show ?thesis by (auto dest: keeps_modelD)
  next
    case (returned a s1 t1 t2)
    with assms show ?thesis by (blast intro: same_model_trans dest: keeps_modelD)
  qed
qed

lemma keeps_model_return: "keeps_model (return a)"
  by (simp add: keeps_model_def return_def same_model_def)

lemma keeps_model_lift: "keeps_model (lift r)"
  by (simp add: keeps_model_def lift_def same_model_def)

lemma keeps_model_emit: "keeps_model (emit ev)"
  by (simp add: keeps_model_def emit_def same_model_def)

lemma keeps_model_call_io: "keeps_model (call_io env ev)"
  by (auto simp: keeps_model_def call_io_def same_model_def split: prod.splits option.splits)

lemma keeps_model_iterate: "keeps_model (iterate b ld)"
  by (auto simp: keeps_model_def iterate_def same_model_def split: prod.splits)

lemma keeps_model_model_eval: "keeps_model model_eval"
  by (auto simp: keeps_model_def model_eval_def same_model_def)

lemma keeps_model_call_forward: "keeps_model (call_forward env d)"
  by (auto simp: keeps_model_def call_forward_def same_model_def split: prod.splits sum.splits)

lemma keeps_model_call_variational_ELBO: "keeps_model (call_variational_ELBO env r x m v)"
  by (auto simp: keeps_model_def call_variational_ELBO_def same_model_def)

lemma keeps_model_no_grad:
  assumes "keeps_model body"
  shows "keeps_model (no_grad body)"
  unfolding keeps_model_def
proof (intro allI impI)
  fix s r s' t
  assume a: "no_grad body s = (r, s', t)"
  obtain r1 s1 t1 where b: "body (s\<lparr>grad_enabled := False\<rparr>) = (r1, s1, t1)"
    by (cases "body (s\<lparr>grad_enabled := False\<rparr>)") auto
  from keeps_modelD [OF assms b] a b show "same_model s s'"
    by (auto simp: no_grad_def same_model_def)
qed

lemmas keeps_model_intros =
  keeps_model_bind keeps_model_return keeps_model_lift keeps_model_emit keeps_model_call_io
  keeps_model_iterate keeps_model_model_eval keeps_model_call_forward
  keeps_model_call_variational_ELBO keeps_model_no_grad

lemma keeps_model_test_batch: "keeps_model (test_batch env config dc e i d test_loss)"
  unfolding test_batch_def case_prod_unfold
  by (intro keeps_model_intros) (auto intro!: keeps_model_intros)

lemma keeps_model_test_loop: "keeps_model (test_loop env config dc e i bs test_loss)"
proof (induction bs arbitrary: i test_loss)
  case Nil
  show ?case by (simp add: keeps_model_return)
next
  case (Cons d rest)
  then show ?case by (simp add: keeps_model_bind keeps_model_test_batch)
qed

lemma keeps_model_test: "keeps_model (test env config dc ld e)"
  unfolding test_def
  by (intro keeps_model_intros keeps_model_test_loop)

subsection \<open>Parts of the calls of a training pass\<close>

lemma gradient_steps_of_train_steps:
  "filter (\<lambda>k. \<not> is_print k) (concat (map (train_step_ops config tr ge e) ps)) =
     concat (map (\<lambda>p. gradient_step_ops tr ge (snd p)) ps)"
  by (induction ps) (auto simp: train_step_ops_def gradient_step_ops_def)

lemma gradient_steps_of_train_ops:
  "filter (\<lambda>k. \<not> is_print k) (train_ops config ge e bs) =
     OpModelTrain # OpIterLoader True # concat (map (gradient_step_ops True ge) bs)"
proof -
  have "map (\<lambda>p. gradient_step_ops True ge (snd p)) (enumerate 0 bs) =
      map (gradient_step_ops True ge) bs"
    by (simp add: enumerate_eq_zip map_snd_zip flip: map_map [unfolded comp_def])
  then show ?thesis
    by (simp add: train_ops_def gradient_steps_of_train_steps)
qed

lemma progress_of_train_steps:
  "filter is_progress (concat (map (train_step_ops config tr ge e) ps)) =
     map (\<lambda>p. OpPrintProgress e (fst p * hd (shape (snd p))))
       (filter (\<lambda>p. log_interval config dvd int (fst p)) ps)"
  by (induction ps)
    (auto simp: train_step_ops_def gradient_step_ops_def mod_eq_0_iff_dvd)

lemma progress_of_train_ops:
  "filter is_progress (train_ops config ge e bs) =
     map (\<lambda>p. OpPrintProgress e (fst p * hd (shape (snd p))))
       (filter (\<lambda>p. log_interval config dvd int (fst p)) (enumerate 0 bs))"
  by (simp add: train_ops_def progress_of_train_steps)

lemmas prog_defs =
  return_def raise_def lift_def emit_def bind_def truediv_def call_io_def model_train_def
  model_eval_def iterate_def call_forward_def variational_ELBO_def call_variational_ELBO_def
  call_zero_grad_def call_backward_def call_step_def no_grad_def train_batch_def train_def
  test_batch_def test_def start_training_def try_except_Exception_def main_def
  len_def size0_def slice_to_def view4_def cat_def numel_def str_def digit_char_def

lemmas demo_defs =
  demo_forward_def demo_loader_def demo_env_def demo_config_def demo_data_config_def
  demo_batch_def demo_train_loader_def demo_test_loader_def demo_state_def demo_args_def

lemma demo_train:
  "train (demo_env 100 RuntimeError) (demo_config 2) (Adam 1) demo_train_loader 1 demo_state =
     (Inr [0, 2, 6],
      \<lparr>params = 3, grads = 12, opt_state = 3, training = True, grad_enabled = True, world = 4\<rparr>,
      [ModelTrain, IterLoader True,
       Forward True True (demo_batch [1, 2]),
       ELBO (demo_batch [1, 2]) (demo_batch [1, 2]) \<lparr>shape = [2, 1], data = [0, 0]\<rparr>
         \<lparr>shape = [2, 1], data = [0, 0]\<rparr>,
       ZeroGrad, Backward 0, OptimizerStep, PrintProgress 1 0 6 0 0,
       Forward True True (demo_batch [3, 4]),
       ELBO (demo_batch [4, 5]) (demo_batch [3, 4]) \<lparr>shape = [2, 1], data = [1, 1]\<rparr>
         \<lparr>shape = [2, 1], data = [0, 0]\<rparr>,
       ZeroGrad, Backward 4, OptimizerStep,
       Forward True True (demo_batch [5, 6]),
       ELBO (demo_batch [7, 8]) (demo_batch [5, 6]) \<lparr>shape = [2, 1], data = [2, 2]\<rparr>
         \<lparr>shape = [2, 1], data = [0, 0]\<rparr>,
       ZeroGrad, Backward 12, OptimizerStep, PrintProgress 1 4 6 66 6,
       PrintEpochAverage 1 2])"
  by (simp add: prog_defs demo_defs)

text \<open>
  C1. In a training pass, whatever its outcome, the calls other than printing are the
  switch to training mode, the start of the iteration over the training loader, and
  then for each batch in turn the forward pass, the ELBO loss on that batch,
  \<^verbatim>\<open>zero_grad\<close>, \<^verbatim>\<open>backward\<close> and the optimizer step, in this order: all of them when the
  pass returns, a first part of them when a call raises. The epoch is arbitrary.
\<close>

theorem train_step_order:
  assumes "train env config optimizer train_loader current_epoch s = (r, s', t)"
  shows "prefix (filter (\<lambda>k. \<not> is_print k) (map op_of t))
           (OpModelTrain # OpIterLoader True #
            concat (map (gradient_step_ops True (grad_enabled s))
              (fst (batches train_loader (world s))))) \<and>
         (\<not> isl r \<longrightarrow>
           filter (\<lambda>k. \<not> is_print k) (map op_of t) =
             OpModelTrain # OpIterLoader True #
             concat (map (gradient_step_ops True (grad_enabled s))
               (fst (batches train_loader (world s)))))"
proof -
  let ?bs = "fst (batches train_loader (world s))"
  from train_trace(1) [OF assms]
  have "prefix (filter (\<lambda>k. \<not> is_print k) (map op_of t))
      (filter (\<lambda>k. \<not> is_print k) (train_ops config (grad_enabled s) current_epoch ?bs))"
    by (rule filter_mono_prefix)
  moreover have "\<not> isl r \<Longrightarrow> filter (\<lambda>k. \<not> is_print k) (map op_of t) =
      filter (\<lambda>k. \<not> is_print k) (train_ops config (grad_enabled s) current_epoch ?bs)"
    using train_trace(2) [OF assms] by simp
  ultimately show ?thesis
    by (simp add: gradient_steps_of_train_ops)
qed

theorem train_step_order_witness:
  "\<not> isl (fst (train (demo_env 100 RuntimeError) (demo_config 2) (Adam 1) demo_train_loader 1
       demo_state)) \<and>
   filter (\<lambda>k. \<not> is_print k)
     (map op_of (snd (snd (train (demo_env 100 RuntimeError) (demo_config 2) (Adam 1)
        demo_train_loader 1 demo_state)))) =
   [OpModelTrain, OpIterLoader True,
    OpForward True True (demo_batch [1, 2]), OpELBO (demo_batch [1, 2]), OpZeroGrad, OpBackward,
    OpOptimizerStep,
    OpForward True True (demo_batch [3, 4]), OpELBO (demo_batch [3, 4]), OpZeroGrad, OpBackward,
    OpOptimizerStep,
    OpForward True True (demo_batch [5, 6]), OpELBO (demo_batch [5, 6]), OpZeroGrad, OpBackward,
    OpOptimizerStep]"
proof -
  have bs: "fst (batches demo_train_loader (world demo_state)) =
      [demo_batch [1, 2], demo_batch [3, 4], demo_batch [5, 6]]"
    by (simp add: demo_train_loader_def demo_loader_def)
  have ge: "grad_enabled demo_state = True"
    by (simp add: demo_state_def)
  show ?thesis
    using train_step_order [OF demo_train]
    by (simp add: demo_train bs ge gradient_step_ops_def)
qed

text \<open>
  C5. With a positive log interval, the progress lines of a training pass that returns
  are those of the batches whose index, counted from zero, is a multiple of the log
  interval, one line each and in the order of the batches; each reports the epoch and
  the index times the length of the batch. When a call raises, the lines printed so far
  are a first part of these.
\<close>

theorem progress_lines:
  assumes "0 < log_interval config"
    and "train env config optimizer train_loader current_epoch s = (r, s', t)"
  shows "prefix (filter is_progress (map op_of t))
           (map (\<lambda>p. OpPrintProgress current_epoch (fst p * hd (shape (snd p))))
              (filter (\<lambda>p. log_interval config dvd int (fst p))
                 (enumerate 0 (fst (batches train_loader (world s)))))) \<and>
         (\<not> isl r \<longrightarrow>
           filter is_progress (map op_of t) =
             map (\<lambda>p. OpPrintProgress current_epoch (fst p * hd (shape (snd p))))
               (filter (\<lambda>p. log_interval config dvd int (fst p))
                  (enumerate 0 (fst (batches train_loader (world s))))))"
proof -
  let ?bs = "fst (batches train_loader (world s))"
  from train_trace(1) [OF assms(2)]
  have "prefix (filter is_progress (map op_of t))
      (filter is_progress (train_ops config (grad_enabled s) current_epoch ?bs))"
    by (rule filter_mono_prefix)
  moreover have "\<not> isl r \<Longrightarrow> filter is_progress (map op_of t) =
      filter is_progress (train_ops config (grad_enabled s) current_epoch ?bs)"
    using train_trace(2) [OF assms(2)] by simp
  ultimately show ?thesis
    by (simp add: progress_of_train_ops)
qed

theorem progress_lines_witness:
  "0 < log_interval (demo_config 2) \<and>
   \<not> isl (fst (train (demo_env 100 RuntimeError) (demo_config 2) (Adam 1) demo_train_loader 1
       demo_state)) \<and>
   filter is_progress
     (map op_of (snd (snd (train (demo_env 100 RuntimeError) (demo_config 2) (Adam 1)
        demo_train_loader 1 demo_state)))) =
   [OpPrintProgress 1 0, OpPrintProgress 1 4]"
proof -
  have h: "0 < log_interval (demo_config 2)"
    by (simp add: demo_config_def)
  show ?thesis
    using h progress_lines [OF h demo_train]
    by (simp add: demo_train)
qed

subsection \<open>The values of a training step and of a test step\<close>

lemma call_forward_Inr:
  assumes "call_forward env d s = (Inr out, s1, t1)"
  shows "forward env (params s) (training s) (grad_enabled s) (world s) d = Inr (out, world s1)"
    and "s1 = s\<lparr>world := world s1\<rparr>"
    and "t1 = [Forward (training s) (grad_enabled s) d]"
  using assms by (auto simp: call_forward_def split: sum.splits prod.splits)

lemma call_variational_ELBO_Inr:
  assumes "call_variational_ELBO env r x m v s = (Inr l, s1, t1)"
  shows "variational_ELBO env r x m v = Inr l" and "s1 = s" and "t1 = [ELBO r x m v]"
  using assms by (auto simp: call_variational_ELBO_def)

lemma call_zero_grad_Inr:
  assumes "call_zero_grad env s = (Inr u, s1, t1)"
  shows "t1 = [ZeroGrad]"
  using assms by (auto simp: call_zero_grad_def)

lemma call_backward_Inr:
  assumes "call_backward env l s = (Inr u, s1, t1)"
  shows "t1 = [Backward l]"
  using assms by (auto simp: call_backward_def split: sum.splits)

lemma call_step_Inr:
  assumes "call_step env opt s = (Inr u, s1, t1)"
  shows "t1 = [OptimizerStep]"
  using assms by (auto simp: call_step_def split: sum.splits prod.splits)

lemma truediv_Inr:
  "truediv env x n = Inr y \<Longrightarrow> n \<noteq> 0 \<and> y = float_div env x (float_of_int env n)"
  by (auto simp: truediv_def split: if_splits)

lemma map_filter_append:
  "List.map_filter f (xs @ ys) = List.map_filter f xs @ List.map_filter f ys"
  by (simp add: List.map_filter_def)

lemma progress_Inr:
  assumes "(if log_interval config = 0 then raise ZeroDivisionError
      else if int i mod log_interval config = 0 then
        bind (lift (truediv env x (int (loader_len ld)))) (\<lambda>percent.
        bind (emit (PrintProgress e k (dataset_len ld) percent ps)) (\<lambda>_.
        return acc'))
      else return acc') s = (Inr a, s', t)"
  shows "a = acc'" and "backward_losses t = []" and "printed_test_losses t = []"
    and "filter is_elbo t = []"
  using assms
  by (auto simp: raise_def return_def emit_def lift_def backward_losses_def
      printed_test_losses_def map_filter_append split: if_splits elim!: bind_Inr)

lemma train_batch_Inr:
  assumes "train_batch env config optimizer ld e i d acc s = (Inr acc', s', t)"
  obtains out w l where
    "forward env (params s) (training s) (grad_enabled s) (world s) d = Inr (out, w)"
    and "variational_ELBO env (fst out) d (fst (snd out)) (snd (snd out)) = Inr l"
    and "acc' = (float_add env (fst acc) (item env l), snd acc @ [per_sample env l d])"
    and "backward_losses t = [l]"
    and "printed_test_losses t = []"
    and "filter is_elbo t = [ELBO (fst out) d (fst (snd out)) (snd (snd out))]"
proof -
  from assms obtain out s1 t1 l s2 t2 s3 t3 s4 t4 s5 t5 n ps t6 where
    fw: "call_forward env d s = (Inr out, s1, t1)"
    and el: "call_variational_ELBO env (fst out) d (fst (snd out)) (snd (snd out)) s1 =
        (Inr l, s2, t2)"
    and zg: "call_zero_grad env s2 = (Inr (), s3, t3)"
    and bw: "call_backward env l s3 = (Inr (), s4, t4)"
    and st: "call_step env optimizer s4 = (Inr (), s5, t5)"
    and ln: "len d = Inr n"
    and dv: "truediv env (item env l) (int n) = Inr ps"
    and pr: "(if log_interval config = 0 then raise ZeroDivisionError
      else if int i mod log_interval config = 0 then
        bind (lift (truediv env
                 (float_mul env (float_of_int env 100) (float_of_int env (int i)))
                 (int (loader_len ld)))) (\<lambda>percent.
        bind (emit (PrintProgress e (i * n) (dataset_len ld) percent ps)) (\<lambda>_.
        return (float_add env (fst acc) (item env l), snd acc @ [ps])))
      else return (float_add env (fst acc) (item env l), snd acc @ [ps])) s5 = (Inr acc', s', t6)"
    and t: "t = t1 @ t2 @ t3 @ t4 @ t5 @ t6"
    unfolding train_batch_def case_prod_unfold
    by (elim bind_Inr bind_lift_Inr) auto
  from call_variational_ELBO_Inr [OF el]
  have l: "variational_ELBO env (fst out) d (fst (snd out)) (snd (snd out)) = Inr l"
    and t2: "t2 = [ELBO (fst out) d (fst (snd out)) (snd (snd out))]"
    by simp_all
  have "forward env (params s) (training s) (grad_enabled s) (world s) d =
      Inr (out, world s1)"
    using call_forward_Inr(1) [OF fw] by simp
  moreover have "acc' = (float_add env (fst acc) (item env l), snd acc @ [per_sample env l d])"
    using progress_Inr(1) [OF pr] truediv_Inr [OF dv] len_Inr [OF ln]
    by (simp add: per_sample_def)
  moreover have "backward_losses t = [l]"
    using progress_Inr(2) [OF pr] call_forward_Inr(3) [OF fw] t2 call_zero_grad_Inr [OF zg]
      call_backward_Inr [OF bw] call_step_Inr [OF st] t
    by (simp add: backward_losses_def)
  moreover have "printed_test_losses t = []"
    using progress_Inr(3) [OF pr] call_forward_Inr(3) [OF fw] t2 call_zero_grad_Inr [OF zg]
      call_backward_Inr [OF bw] call_step_Inr [OF st] t
    by (simp add: printed_test_losses_def)
  moreover have "filter is_elbo t = [ELBO (fst out) d (fst (snd out)) (snd (snd out))]"
    using progress_Inr(4) [OF pr] call_forward_Inr(3) [OF fw] t2 call_zero_grad_Inr [OF zg]
      call_backward_Inr [OF bw] call_step_Inr [OF st] t
    by simp
  ultimately show ?thesis
    using that [of out "world s1" l] l by blast
qed

lemma train_loop_Inr:
  "train_loop env config optimizer ld e i bs acc s = (Inr acc', s', t) \<Longrightarrow>
     snd acc' = snd acc @ map2 (per_sample env) (backward_losses t) bs \<and>
     length (backward_losses t) = length bs \<and> printed_test_losses t = []"
proof (induction bs arbitrary: i acc s t)
  case Nil
  then show ?case
    by (simp add: return_def backward_losses_def printed_test_losses_def)
next
  case (Cons d rest)
  from Cons.prems obtain a s1 t1 t2 where
    m: "train_batch env config optimizer ld e i d acc s = (Inr a, s1, t1)"
    and f: "train_loop env config optimizer ld e (Suc i) rest a s1 = (Inr acc', s', t2)"
    and t: "t = t1 @ t2"
    by (auto elim: bind_Inr)
  from m obtain l where a: "snd a = snd acc @ [per_sample env l d]"
    and l: "backward_losses t1 = [l]" and p: "printed_test_losses t1 = []"
    by (rule train_batch_Inr) simp
  from Cons.IH [OF f] a l p t show ?case
    by (simp add: backward_losses_def printed_test_losses_def map_filter_append)
qed

lemma train_Inr:
  assumes "train env config optimizer ld e s = (Inr epoch_loss, s', t)"
  shows "epoch_loss = map2 (per_sample env) (backward_losses t) (fst (batches ld (world s)))"
    and "length (backward_losses t) = length (fst (batches ld (world s)))"
    and "printed_test_losses t = []"
proof -
  let ?bs = "fst (batches ld (world s))"
  let ?s1 = "s\<lparr>training := True, world := snd (batches ld (world s))\<rparr>"
  let ?rest = "bind (train_loop env config optimizer ld e 0 ?bs (float_of_int env 0, []))
      (\<lambda>p. bind (lift (truediv env (fst p) (int (dataset_len ld)))) (\<lambda>average.
           bind (emit (PrintEpochAverage e average)) (\<lambda>_. return (snd p))))"
  obtain r1 s1 t1 where rest: "?rest ?s1 = (r1, s1, t1)"
    by (cases "?rest ?s1") auto
  with assms have eq: "r1 = Inr epoch_loss" "t = ModelTrain # IterLoader True # t1"
    by (simp_all add: train_def bind_model_train bind_iterate case_prod_unfold)
  from rest eq(1) obtain p s2 ta tb where
    loop: "train_loop env config optimizer ld e 0 ?bs (float_of_int env 0, []) ?s1 =
        (Inr p, s2, ta)"
    and tail: "bind (lift (truediv env (fst p) (int (dataset_len ld)))) (\<lambda>average.
           bind (emit (PrintEpochAverage e average)) (\<lambda>_. return (snd p))) s2 =
        (Inr epoch_loss, s1, tb)"
    and t1: "t1 = ta @ tb"
    by (auto elim: bind_Inr)
  from tail obtain average where "epoch_loss = snd p" and tb: "tb = [PrintEpochAverage e average]"
    by (auto simp: lift_def emit_def return_def elim!: bind_Inr)
  with train_loop_Inr [OF loop] eq(2) t1
  show "epoch_loss = map2 (per_sample env) (backward_losses t) ?bs"
    and "length (backward_losses t) = length ?bs"
    and "printed_test_losses t = []"
    by (simp_all add: backward_losses_def printed_test_losses_def map_filter_append)
qed

subsection \<open>The comparison image\<close>


lemma call_io_Inr:
  assumes "call_io env ev s = (Inr u, s1, t1)"
  shows "t1 = [ev]"
  using assms by (auto simp: call_io_def split: prod.splits option.splits)

lemma test_batch_Inr:
  assumes "test_batch env config dc e i d test_loss s = (Inr test_loss', s', t)"
  obtains recon mu log_var w l t' where
    "forward env (params s) (training s) (grad_enabled s) (world s) d =
       Inr ((recon, mu, log_var), w)"
    and "variational_ELBO env recon d mu log_var = Inr l"
    and "test_loss' = float_add env test_loss (item env l)"
    and "t = [Forward (training s) (grad_enabled s) d, ELBO recon d mu log_var] @ t'"
    and "i \<noteq> 0 \<Longrightarrow> t' = []"
    and "i = 0 \<Longrightarrow> \<exists>sz originals viewed reconstructions comparison.
           size0 d = Inr sz \<and> slice_to (min sz 8) d = Inr originals \<and>
           view4 (batch_size config) (channels dc) (image_size dc) (image_size dc) recon =
             Inr viewed \<and>
           slice_to (min sz 8) viewed = Inr reconstructions \<and>
           cat originals reconstructions = Inr comparison \<and>
           t' = [SaveImage comparison (reconstruction_file config e) (min sz 8)]"
proof -
  from assms obtain out s1 t1 l s2 t2 t3 where
    fw: "call_forward env d s = (Inr out, s1, t1)"
    and el: "call_variational_ELBO env (fst out) d (fst (snd out)) (snd (snd out)) s1 =
        (Inr l, s2, t2)"
    and rest: "(if i = 0 then
       bind (lift (size0 d)) (\<lambda>sz.
       bind (lift (slice_to (min sz 8) d)) (\<lambda>originals.
       bind (lift (view4 (batch_size config) (channels dc) (image_size dc)
                     (image_size dc) (fst out))) (\<lambda>viewed.
       bind (lift (slice_to (min sz 8) viewed)) (\<lambda>reconstructions.
       bind (lift (cat originals reconstructions)) (\<lambda>comparison.
       bind (call_io env (SaveImage comparison
                 (output_dir_name config @ ''/reconstruction_'' @ str e @ ''.png'')
                 (min sz 8))) (\<lambda>_.
       return (float_add env test_loss (item env l))))))))
     else return (float_add env test_loss (item env l))) s2 = (Inr test_loss', s', t3)"
    and t: "t = t1 @ t2 @ t3"
    unfolding test_batch_def case_prod_unfold
    by (elim bind_Inr) auto
  from call_variational_ELBO_Inr [OF el]
  have l: "variational_ELBO env (fst out) d (fst (snd out)) (snd (snd out)) = Inr l"
    and t2: "t2 = [ELBO (fst out) d (fst (snd out)) (snd (snd out))]"
    by simp_all
  have 1: "forward env (params s) (training s) (grad_enabled s) (world s) d =
      Inr ((fst out, fst (snd out), snd (snd out)), world s1)"
    using call_forward_Inr(1) [OF fw] by simp
  have 3: "t = [Forward (training s) (grad_enabled s) d,
      ELBO (fst out) d (fst (snd out)) (snd (snd out))] @ t3"
    using t t2 call_forward_Inr(3) [OF fw] by simp
  show ?thesis
  proof (cases "i = 0")
    case False
    with rest have "return (float_add env test_loss (item env l)) s2 = (Inr test_loss', s', t3)"
      by (simp only: if_False)
    then have 2: "test_loss' = float_add env test_loss (item env l)"
      and 4: "t3 = []"
      by (simp_all add: return_def)
    show ?thesis
      by (rule that [OF 1 l 2 3]) (use False 4 in simp_all)
  next
    case True
    with rest have "bind (lift (size0 d)) (\<lambda>sz.
       bind (lift (slice_to (min sz 8) d)) (\<lambda>originals.
       bind (lift (view4 (batch_size config) (channels dc) (image_size dc)
                     (image_size dc) (fst out))) (\<lambda>viewed.
       bind (lift (slice_to (min sz 8) viewed)) (\<lambda>reconstructions.
       bind (lift (cat originals reconstructions)) (\<lambda>comparison.
       bind (call_io env (SaveImage comparison
                 (output_dir_name config @ ''/reconstruction_'' @ str e @ ''.png'')
                 (min sz 8))) (\<lambda>_.
       return (float_add env test_loss (item env l)))))))) s2 = (Inr test_loss', s', t3)"
      by (simp only: simp_thms if_True)
    then obtain sz originals viewed reconstructions comparison u s3 t4 t5 where
      f: "size0 d = Inr sz" "slice_to (min sz 8) d = Inr originals"
      "view4 (batch_size config) (channels dc) (image_size dc) (image_size dc) (fst out) =
         Inr viewed"
      "slice_to (min sz 8) viewed = Inr reconstructions"
      "cat originals reconstructions = Inr comparison"
      and io: "call_io env (SaveImage comparison
         (output_dir_name config @ ''/reconstruction_'' @ str e @ ''.png'') (min sz 8)) s2 =
         (Inr u, s3, t4)"
      and ret: "return (float_add env test_loss (item env l)) s3 = (Inr test_loss', s', t5)"
      and t3: "t3 = t4 @ t5"
      by (elim bind_lift_Inr bind_Inr) fast
    from ret have 2: "test_loss' = float_add env test_loss (item env l)"
      and t5: "t5 = []"
      by (simp_all add: return_def)
    from call_io_Inr [OF io] t3 t5
    have "t3 = [SaveImage comparison (reconstruction_file config e) (min sz 8)]"
      unfolding reconstruction_file_def by simp
    with f have 5: "\<exists>sz originals viewed reconstructions comparison.
           size0 d = Inr sz \<and> slice_to (min sz 8) d = Inr originals \<and>
           view4 (batch_size config) (channels dc) (image_size dc) (image_size dc) (fst out) =
             Inr viewed \<and>
           slice_to (min sz 8) viewed = Inr reconstructions \<and>
           cat originals reconstructions = Inr comparison \<and>
           t3 = [SaveImage comparison (reconstruction_file config e) (min sz 8)]"
      by blast
    show ?thesis
      by (rule that [OF 1 l 2 3]) (use True 5 in simp_all)
  qed
qed

subsection \<open>The values of a test pass\<close>

lemma filter_save_image_step [simp]:
  "filter is_save_image [Forward tr ge d, ELBO r x m v] = []"
  "backward_losses [Forward tr ge d, ELBO r x m v] = []"
  "printed_test_losses [Forward tr ge d, ELBO r x m v] = []"
  by (simp_all add: backward_losses_def printed_test_losses_def)

lemma test_loop_Inr:
  "test_loop env config dc e i bs test_loss s = (Inr test_loss', s', t) \<Longrightarrow>
     backward_losses t = [] \<and> printed_test_losses t = [] \<and>
     (i \<noteq> 0 \<longrightarrow> filter is_save_image t = [])"
proof (induction bs arbitrary: i test_loss s t)
  case Nil
  then show ?case
    by (simp add: return_def backward_losses_def printed_test_losses_def)
next
  case (Cons d rest)
  from Cons.prems obtain a s1 t1 t2 where
    m: "test_batch env config dc e i d test_loss s = (Inr a, s1, t1)"
    and f: "test_loop env config dc e (Suc i) rest a s1 = (Inr test_loss', s', t2)"
    and t: "t = t1 @ t2"
    by (auto elim: bind_Inr)
  from m obtain ta where t1: "t1 = [Forward (training s) (grad_enabled s) d] @ ta
      \<or> (\<exists>r m v. t1 = [Forward (training s) (grad_enabled s) d, ELBO r d m v] @ ta)"
    and ta: "i \<noteq> 0 \<Longrightarrow> ta = []"
    and ta0: "i = 0 \<Longrightarrow> \<exists>c f n. ta = [SaveImage c f n]"
    by (rule test_batch_Inr) blast
  from t1 ta ta0 have "backward_losses t1 = []" "printed_test_losses t1 = []"
    "i \<noteq> 0 \<Longrightarrow> filter is_save_image t1 = []"
    by (cases "i = 0"; auto simp: backward_losses_def printed_test_losses_def)+
  with Cons.IH [OF f] t show ?case
    by (simp add: backward_losses_def printed_test_losses_def map_filter_append)
qed


lemma test_Inr:
  assumes "test env config dc ld e s = (Inr test_loss, s', t)"
  obtains x s1 t1 where
    "test_loop env config dc e 0 (fst (batches ld (world s))) (float_of_int env 0)
       (s\<lparr>training := False, grad_enabled := False, world := snd (batches ld (world s))\<rparr>) =
     (Inr x, s1, t1)"
    and "t = ModelEval # IterLoader False # t1 @ [PrintTestLoss test_loss]"
proof -
  let ?bs = "fst (batches ld (world s))"
  let ?inner = "s\<lparr>training := False, grad_enabled := False,
      world := snd (batches ld (world s))\<rparr>"
  let ?s1 = "s\<lparr>training := False\<rparr>"
  let ?rest = "bind (no_grad (bind (iterate False ld) (\<lambda>bs.
        test_loop env config dc e 0 bs (float_of_int env 0))))
      (\<lambda>test_loss. bind (lift (truediv env test_loss (int (dataset_len ld)))) (\<lambda>test_loss.
           bind (emit (PrintTestLoss test_loss)) (\<lambda>_. return test_loss)))"
  obtain r1 s1 t1 where rest: "?rest ?s1 = (r1, s1, t1)"
    by (cases "?rest ?s1") auto
  with assms have eq: "r1 = Inr test_loss" "t = ModelEval # t1"
    by (simp_all add: test_def bind_model_eval)
  from rest eq(1) obtain x s2 ta tb where
    ng: "no_grad (bind (iterate False ld) (\<lambda>bs.
        test_loop env config dc e 0 bs (float_of_int env 0))) ?s1 = (Inr x, s2, ta)"
    and tail: "bind (lift (truediv env x (int (dataset_len ld)))) (\<lambda>test_loss.
           bind (emit (PrintTestLoss test_loss)) (\<lambda>_. return test_loss)) s2 =
        (Inr test_loss, s1, tb)"
    and t1: "t1 = ta @ tb"
    by (auto elim: bind_Inr)
  from tail have tb: "tb = [PrintTestLoss test_loss]"
    by (auto simp: lift_def emit_def return_def elim!: bind_Inr)
  obtain r3 s3 t3 where loop: "test_loop env config dc e 0 ?bs (float_of_int env 0) ?inner =
      (r3, s3, t3)"
    by (cases "test_loop env config dc e 0 ?bs (float_of_int env 0) ?inner") auto
  with ng have "r3 = Inr x" "ta = IterLoader False # t3"
    by (simp_all add: no_grad_def bind_iterate)
  with loop eq(2) t1 tb show ?thesis
    by (intro that [of x s3 t3]) simp_all
qed

lemma demo_test:
  "test (demo_env 100 RuntimeError) (demo_config 2) demo_data_config demo_test_loader 1
     \<lparr>params = 3, grads = 12, opt_state = 3, training = True, grad_enabled = True, world = 4\<rparr> =
   (Inr 12,
    \<lparr>params = 3, grads = 12, opt_state = 3, training = False, grad_enabled = True, world = 8\<rparr>,
    [ModelEval, IterLoader False,
     Forward False False (demo_batch [1, 2]),
     ELBO (demo_batch [4, 5]) (demo_batch [1, 2]) \<lparr>shape = [2, 1], data = [3, 3]\<rparr>
       \<lparr>shape = [2, 1], data = [0, 0]\<rparr>,
     SaveImage \<lparr>shape = [4, 1, 1, 1], data = [1, 2, 4, 5]\<rparr> ''results/reconstruction_1.png'' 2,
     Forward False False (demo_batch [3, 4]),
     ELBO (demo_batch [6, 7]) (demo_batch [3, 4]) \<lparr>shape = [2, 1], data = [3, 3]\<rparr>
       \<lparr>shape = [2, 1], data = [0, 0]\<rparr>,
     PrintTestLoss 12])"
  by (simp add: prog_defs demo_defs str_nat.simps)

subsection \<open>The loss of every step of a pass\<close>

lemma train_loop_steps:
  "train_loop env config optimizer ld e i bs acc s = (Inr acc', s', t) \<Longrightarrow>
     \<exists>steps. list_all2 (loss_step env UNIV (training s) (grad_enabled s)) steps bs \<and>
       filter is_elbo t = map2 elbo_event steps bs \<and>
       backward_losses t = map snd steps \<and>
       snd acc' = snd acc @ map2 (per_sample env) (map snd steps) bs"
proof (induction bs arbitrary: i acc s t)
  case Nil
  then show ?case
    by (simp add: return_def backward_losses_def)
next
  case (Cons d rest)
  from Cons.prems obtain a s1 t1 t2 where
    m: "train_batch env config optimizer ld e i d acc s = (Inr a, s1, t1)"
    and f: "train_loop env config optimizer ld e (Suc i) rest a s1 = (Inr acc', s', t2)"
    and t: "t = t1 @ t2"
    by (auto elim: bind_Inr)
  from run_opsD(3,4) [OF train_batch_run_ops m]
  have fl: "training s1 = training s" "grad_enabled s1 = grad_enabled s" .
  from m have "\<exists>out w l.
      forward env (params s) (training s) (grad_enabled s) (world s) d = Inr (out, w) \<and>
      variational_ELBO env (fst out) d (fst (snd out)) (snd (snd out)) = Inr l \<and>
      a = (float_add env (fst acc) (item env l), snd acc @ [per_sample env l d]) \<and>
      backward_losses t1 = [l] \<and>
      filter is_elbo t1 = [ELBO (fst out) d (fst (snd out)) (snd (snd out))]"
    by (rule train_batch_Inr) (intro exI conjI, assumption+)
  then obtain out w l where
    fw: "forward env (params s) (training s) (grad_enabled s) (world s) d = Inr (out, w)"
    and el: "variational_ELBO env (fst out) d (fst (snd out)) (snd (snd out)) = Inr l"
    and a: "a = (float_add env (fst acc) (item env l), snd acc @ [per_sample env l d])"
    and bl: "backward_losses t1 = [l]"
    and ev: "filter is_elbo t1 = [ELBO (fst out) d (fst (snd out)) (snd (snd out))]"
    by (elim exE conjE)
  from fw el have st: "loss_step env UNIV (training s) (grad_enabled s) (out, l) d"
    by (auto simp: loss_step_def model_output_def)
  from Cons.IH [OF f] fl obtain steps where
    s: "list_all2 (loss_step env UNIV (training s) (grad_enabled s)) steps rest"
    "filter is_elbo t2 = map2 elbo_event steps rest"
    "backward_losses t2 = map snd steps"
    "snd acc' = snd a @ map2 (per_sample env) (map snd steps) rest"
    by auto
  from st s a bl ev t
  have "list_all2 (loss_step env UNIV (training s) (grad_enabled s)) ((out, l) # steps) (d # rest) \<and>
       filter is_elbo t = map2 elbo_event ((out, l) # steps) (d # rest) \<and>
       backward_losses t = map snd ((out, l) # steps) \<and>
       snd acc' = snd acc @ map2 (per_sample env) (map snd ((out, l) # steps)) (d # rest)"
    by (simp add: elbo_event_def backward_losses_def map_filter_append)
  then show ?case
    by (rule exI)
qed

lemma train_steps:
  assumes "train env config optimizer ld e s = (Inr epoch_loss, s', t)"
  shows "\<exists>steps.
     list_all2 (loss_step env UNIV True (grad_enabled s)) steps (fst (batches ld (world s))) \<and>
     filter is_elbo t = map2 elbo_event steps (fst (batches ld (world s))) \<and>
     backward_losses t = map snd steps \<and>
     epoch_loss = map2 (per_sample env) (map snd steps) (fst (batches ld (world s)))"
proof -
  let ?bs = "fst (batches ld (world s))"
  let ?s1 = "s\<lparr>training := True, world := snd (batches ld (world s))\<rparr>"
  let ?rest = "bind (train_loop env config optimizer ld e 0 ?bs (float_of_int env 0, []))
      (\<lambda>p. bind (lift (truediv env (fst p) (int (dataset_len ld)))) (\<lambda>average.
           bind (emit (PrintEpochAverage e average)) (\<lambda>_. return (snd p))))"
  obtain r1 s1 t1 where rest: "?rest ?s1 = (r1, s1, t1)"
    by (cases "?rest ?s1") auto
  with assms have eq: "r1 = Inr epoch_loss" "t = ModelTrain # IterLoader True # t1"
    by (simp_all add: train_def bind_model_train bind_iterate case_prod_unfold)
  from rest eq(1) obtain p s2 ta tb where
    loop: "train_loop env config optimizer ld e 0 ?bs (float_of_int env 0, []) ?s1 =
        (Inr p, s2, ta)"
    and tail: "bind (lift (truediv env (fst p) (int (dataset_len ld)))) (\<lambda>average.
           bind (emit (PrintEpochAverage e average)) (\<lambda>_. return (snd p))) s2 =
        (Inr epoch_loss, s1, tb)"
    and t1: "t1 = ta @ tb"
    by (auto elim: bind_Inr)
  from tail obtain average where el: "epoch_loss = snd p"
    and tb: "tb = [PrintEpochAverage e average]"
    by (auto simp: lift_def emit_def return_def elim!: bind_Inr)
  from train_loop_steps [OF loop] obtain steps where
    "list_all2 (loss_step env UNIV True (grad_enabled s)) steps ?bs"
    "filter is_elbo ta = map2 elbo_event steps ?bs"
    "backward_losses ta = map snd steps"
    "snd p = map2 (per_sample env) (map snd steps) ?bs"
    by auto
  with el tb t1 eq(2)
  have "list_all2 (loss_step env UNIV True (grad_enabled s)) steps ?bs \<and>
     filter is_elbo t = map2 elbo_event steps ?bs \<and>
     backward_losses t = map snd steps \<and>
     epoch_loss = map2 (per_sample env) (map snd steps) ?bs"
    by (simp add: backward_losses_def map_filter_append)
  then show ?thesis
    by (rule exI)
qed

lemma test_loop_steps:
  "test_loop env config dc e i bs test_loss s = (Inr test_loss', s', t) \<Longrightarrow>
     \<exists>steps. list_all2 (loss_step env {params s} (training s) (grad_enabled s)) steps bs \<and>
       filter is_elbo t = map2 elbo_event steps bs \<and>
       test_loss' = foldl (float_add env) test_loss (map (\<lambda>step. item env (snd step)) steps)"
proof (induction bs arbitrary: i test_loss s t)
  case Nil
  then show ?case
    by (simp add: return_def)
next
  case (Cons d rest)
  from Cons.prems obtain a s1 t1 t2 where
    m: "test_batch env config dc e i d test_loss s = (Inr a, s1, t1)"
    and f: "test_loop env config dc e (Suc i) rest a s1 = (Inr test_loss', s', t2)"
    and t: "t = t1 @ t2"
    by (auto elim: bind_Inr)
  from run_opsD(3,4) [OF test_batch_run_ops m] keeps_modelD [OF keeps_model_test_batch m]
  have fl: "training s1 = training s" "grad_enabled s1 = grad_enabled s" "params s1 = params s"
    by (simp_all add: same_model_def)
  from m have "\<exists>recon mu log_var w l.
      forward env (params s) (training s) (grad_enabled s) (world s) d =
        Inr ((recon, mu, log_var), w) \<and>
      variational_ELBO env recon d mu log_var = Inr l \<and>
      a = float_add env test_loss (item env l) \<and>
      filter is_elbo t1 = [ELBO recon d mu log_var]"
  proof (rule test_batch_Inr)
    fix recon mu log_var w l t'
    assume fw: "forward env (params s) (training s) (grad_enabled s) (world s) d =
        Inr ((recon, mu, log_var), w)"
      and el: "variational_ELBO env recon d mu log_var = Inr l"
      and a: "a = float_add env test_loss (item env l)"
      and t1: "t1 = [Forward (training s) (grad_enabled s) d, ELBO recon d mu log_var] @ t'"
      and n0: "i \<noteq> 0 \<Longrightarrow> t' = []"
      and i0: "i = 0 \<Longrightarrow> \<exists>sz originals viewed reconstructions comparison.
           size0 d = Inr sz \<and> slice_to (min sz 8) d = Inr originals \<and>
           view4 (batch_size config) (channels dc) (image_size dc) (image_size dc) recon =
             Inr viewed \<and>
           slice_to (min sz 8) viewed = Inr reconstructions \<and>
           cat originals reconstructions = Inr comparison \<and>
           t' = [SaveImage comparison (reconstruction_file config e) (min sz 8)]"
    have "filter is_elbo t' = []"
    proof (cases "i = 0")
      case True
      from i0 [OF True] obtain c f n where "t' = [SaveImage c f n]"
        by (elim exE conjE)
      then show ?thesis by simp
    next
      case False
      from n0 [OF False] show ?thesis by simp
    qed
    with t1 have "filter is_elbo t1 = [ELBO recon d mu log_var]"
      by simp
    with fw el a show ?thesis
      by (intro exI conjI)
  qed
  then obtain recon mu log_var w l where
    fw: "forward env (params s) (training s) (grad_enabled s) (world s) d =
       Inr ((recon, mu, log_var), w)"
    and el: "variational_ELBO env recon d mu log_var = Inr l"
    and a: "a = float_add env test_loss (item env l)"
    and ev: "filter is_elbo t1 = [ELBO recon d mu log_var]"
    by (elim exE conjE)
  from fw el
  have st: "loss_step env {params s} (training s) (grad_enabled s) ((recon, mu, log_var), l) d"
    by (auto simp: loss_step_def model_output_def)
  from Cons.IH [OF f] fl obtain steps where
    s: "list_all2 (loss_step env {params s} (training s) (grad_enabled s)) steps rest"
    "filter is_elbo t2 = map2 elbo_event steps rest"
    "test_loss' = foldl (float_add env) a (map (\<lambda>step. item env (snd step)) steps)"
    by auto
  from st s a ev t
  have "list_all2 (loss_step env {params s} (training s) (grad_enabled s))
         (((recon, mu, log_var), l) # steps) (d # rest) \<and>
       filter is_elbo t = map2 elbo_event (((recon, mu, log_var), l) # steps) (d # rest) \<and>
       test_loss' = foldl (float_add env) test_loss
         (map (\<lambda>step. item env (snd step)) (((recon, mu, log_var), l) # steps))"
    by (simp add: elbo_event_def)
  then show ?case
    by (rule exI)
qed

lemma test_steps:
  assumes "test env config dc ld e s = (Inr test_loss, s', t)"
  shows "\<exists>steps.
     list_all2 (loss_step env {params s} False False) steps (fst (batches ld (world s))) \<and>
     filter is_elbo t = map2 elbo_event steps (fst (batches ld (world s))) \<and>
     truediv env (foldl (float_add env) (float_of_int env 0)
                    (map (\<lambda>step. item env (snd step)) steps)) (int (dataset_len ld)) =
       Inr test_loss \<and>
     printed_test_losses t = [test_loss]"
proof -
  let ?bs = "fst (batches ld (world s))"
  let ?inner = "s\<lparr>training := False, grad_enabled := False,
      world := snd (batches ld (world s))\<rparr>"
  let ?s1 = "s\<lparr>training := False\<rparr>"
  let ?rest = "bind (no_grad (bind (iterate False ld) (\<lambda>bs.
        test_loop env config dc e 0 bs (float_of_int env 0))))
      (\<lambda>test_loss. bind (lift (truediv env test_loss (int (dataset_len ld)))) (\<lambda>test_loss.
           bind (emit (PrintTestLoss test_loss)) (\<lambda>_. return test_loss)))"
  obtain r1 s1 t1 where rest: "?rest ?s1 = (r1, s1, t1)"
    by (cases "?rest ?s1") auto
  with assms have eq: "r1 = Inr test_loss" "t = ModelEval # t1"
    by (simp_all add: test_def bind_model_eval)
  from rest eq(1) obtain x s2 ta tb where
    ng: "no_grad (bind (iterate False ld) (\<lambda>bs.
        test_loop env config dc e 0 bs (float_of_int env 0))) ?s1 = (Inr x, s2, ta)"
    and tail: "bind (lift (truediv env x (int (dataset_len ld)))) (\<lambda>test_loss.
           bind (emit (PrintTestLoss test_loss)) (\<lambda>_. return test_loss)) s2 =
        (Inr test_loss, s1, tb)"
    and t1: "t1 = ta @ tb"
    by (auto elim: bind_Inr)
  from tail have tb: "tb = [PrintTestLoss test_loss]"
    and dv: "truediv env x (int (dataset_len ld)) = Inr test_loss"
    by (auto simp: lift_def emit_def return_def elim!: bind_Inr)
  obtain r3 s3 t3 where loop: "test_loop env config dc e 0 ?bs (float_of_int env 0) ?inner =
      (r3, s3, t3)"
    by (cases "test_loop env config dc e 0 ?bs (float_of_int env 0) ?inner") auto
  with ng have r3: "r3 = Inr x" and ta: "ta = IterLoader False # t3"
    by (simp_all add: no_grad_def bind_iterate)
  from test_loop_steps [OF loop [unfolded r3]] obtain steps where
    "list_all2 (loss_step env {params s} False False) steps ?bs"
    "filter is_elbo t3 = map2 elbo_event steps ?bs"
    "x = foldl (float_add env) (float_of_int env 0) (map (\<lambda>step. item env (snd step)) steps)"
    by auto
  moreover from test_loop_Inr [OF loop [unfolded r3]] have "printed_test_losses t3 = []"
    by simp
  ultimately
  have "list_all2 (loss_step env {params s} False False) steps ?bs \<and>
     filter is_elbo t = map2 elbo_event steps ?bs \<and>
     truediv env (foldl (float_add env) (float_of_int env 0)
                    (map (\<lambda>step. item env (snd step)) steps)) (int (dataset_len ld)) =
       Inr test_loss \<and>
     printed_test_losses t = [test_loss]"
    using eq(2) t1 ta tb dv
    by (simp add: printed_test_losses_def map_filter_append)
  then show ?thesis
    by (rule exI)
qed

lemma variational_ELBO_Inr:
  "variational_ELBO env recon x mu log_var = Inr l \<longleftrightarrow>
     (\<exists>reconstruction kl. reconstruction_term env recon x = Inr reconstruction \<and>
        kl_divergence env mu log_var = Inr kl \<and> l = loss_add env reconstruction kl)"
  by (auto simp: variational_ELBO_def split: sum.splits)

text \<open>
  C2. A loss is the ELBO of an output of the model (reconstruction, mean, log-variance)
  and the batch it was computed on: the reconstruction term of reconstruction and batch
  plus the Kullback-Leibler term of mean and log-variance. In a training pass that
  returns, the loss function is called once on every batch of the loader, in order, on
  what the model returned for that batch; \<^verbatim>\<open>backward\<close> is called on exactly these
  losses, and the per-sample losses returned are theirs. In a test pass that returns,
  the same function is called once on every batch of the test loader, on what the model
  returned for it with the parameters the pass started with, and the test loss printed
  and returned is the sum of these losses divided by the size of the dataset.
\<close>

theorem elbo_is_the_loss:
  "(train env config optimizer train_loader e s = (Inr epoch_loss, s1, t1) \<longrightarrow>
      (\<exists>steps.
         list_all2 (loss_step env UNIV True (grad_enabled s)) steps
           (fst (batches train_loader (world s))) \<and>
         filter is_elbo t1 = map2 elbo_event steps (fst (batches train_loader (world s))) \<and>
         backward_losses t1 = map snd steps \<and>
         epoch_loss =
           map2 (per_sample env) (map snd steps) (fst (batches train_loader (world s))))) \<and>
   (test env config dc test_loader e s = (Inr test_loss, s2, t2) \<longrightarrow>
      (\<exists>steps.
         list_all2 (loss_step env {params s} False False) steps
           (fst (batches test_loader (world s))) \<and>
         filter is_elbo t2 = map2 elbo_event steps (fst (batches test_loader (world s))) \<and>
         truediv env (foldl (float_add env) (float_of_int env 0)
                        (map (\<lambda>step. item env (snd step)) steps))
           (int (dataset_len test_loader)) = Inr test_loss \<and>
         printed_test_losses t2 = [test_loss])) \<and>
   (variational_ELBO env recon x mu log_var = Inr l \<longleftrightarrow>
      (\<exists>reconstruction kl. reconstruction_term env recon x = Inr reconstruction \<and>
         kl_divergence env mu log_var = Inr kl \<and> l = loss_add env reconstruction kl))"
  using train_steps test_steps variational_ELBO_Inr
  by (intro conjI impI)

theorem elbo_is_the_loss_witness:
  "(\<exists>steps.
      list_all2 (loss_step (demo_env 100 RuntimeError) UNIV True True) steps
        [demo_batch [1, 2], demo_batch [3, 4], demo_batch [5, 6]] \<and>
      map snd steps = [0, 4, 12] \<and>
      [0, 2, 6] = map2 (per_sample (demo_env 100 RuntimeError)) (map snd steps)
        [demo_batch [1, 2], demo_batch [3, 4], demo_batch [5, 6]]) \<and>
   (\<exists>steps.
      list_all2 (loss_step (demo_env 100 RuntimeError) {3} False False) steps
        [demo_batch [1, 2], demo_batch [3, 4]] \<and>
      truediv (demo_env 100 RuntimeError)
        (foldl (float_add (demo_env 100 RuntimeError)) (float_of_int (demo_env 100 RuntimeError) 0)
           (map (\<lambda>step. item (demo_env 100 RuntimeError) (snd step)) steps)) 4 = Inr 12) \<and>
   variational_ELBO (demo_env 100 RuntimeError) (demo_batch [2, 3]) (demo_batch [1, 2])
     \<lparr>shape = [2, 1], data = [1, 1]\<rparr> \<lparr>shape = [2, 1], data = [0, 0]\<rparr> = Inr (2 + 2)"
proof (intro conjI)
  have bs: "fst (batches demo_train_loader (world demo_state)) =
      [demo_batch [1, 2], demo_batch [3, 4], demo_batch [5, 6]]"
    "grad_enabled demo_state = True"
    by (simp_all add: demo_train_loader_def demo_loader_def demo_state_def)
  from elbo_is_the_loss [THEN conjunct1, rule_format, OF demo_train] obtain steps where
    "list_all2 (loss_step (demo_env 100 RuntimeError) UNIV True (grad_enabled demo_state)) steps
       (fst (batches demo_train_loader (world demo_state)))"
    "[0, 4, 12] = map snd steps"
    "[0, 2, 6] = map2 (per_sample (demo_env 100 RuntimeError)) (map snd steps)
       (fst (batches demo_train_loader (world demo_state)))"
    by (auto simp: backward_losses_def)
  then show "\<exists>steps.
      list_all2 (loss_step (demo_env 100 RuntimeError) UNIV True True) steps
        [demo_batch [1, 2], demo_batch [3, 4], demo_batch [5, 6]] \<and>
      map snd steps = [0, 4, 12] \<and>
      [0, 2, 6] = map2 (per_sample (demo_env 100 RuntimeError)) (map snd steps)
        [demo_batch [1, 2], demo_batch [3, 4], demo_batch [5, 6]]"
    unfolding bs by (intro exI [of _ steps] conjI) simp_all
next
  have bs: "fst (batches demo_test_loader
      (world \<lparr>params = 3::int, grads = 12::int, opt_state = 3::nat, training = True,
         grad_enabled = True, world = 4::nat\<rparr>)) = [demo_batch [1, 2], demo_batch [3, 4]]"
    "int (dataset_len demo_test_loader) = 4"
    "params \<lparr>params = 3::int, grads = 12::int, opt_state = 3::nat, training = True,
         grad_enabled = True, world = 4::nat\<rparr> = 3"
    by (simp_all add: demo_test_loader_def demo_loader_def demo_batch_def)
  from elbo_is_the_loss [THEN conjunct2, THEN conjunct1, rule_format, OF demo_test]
  show "\<exists>steps.
      list_all2 (loss_step (demo_env 100 RuntimeError) {3} False False) steps
        [demo_batch [1, 2], demo_batch [3, 4]] \<and>
      truediv (demo_env 100 RuntimeError)
        (foldl (float_add (demo_env 100 RuntimeError)) (float_of_int (demo_env 100 RuntimeError) 0)
           (map (\<lambda>step. item (demo_env 100 RuntimeError) (snd step)) steps)) 4 = Inr 12"
    unfolding bs by blast
next
  from elbo_is_the_loss [THEN conjunct2, THEN conjunct2,
      of "demo_env 100 RuntimeError" "demo_batch [2, 3]" "demo_batch [1, 2]"
         "\<lparr>shape = [2, 1], data = [1, 1]\<rparr>" "\<lparr>shape = [2, 1], data = [0, 0]\<rparr>" "2 + 2"]
  show "variational_ELBO (demo_env 100 RuntimeError) (demo_batch [2, 3]) (demo_batch [1, 2])
     \<lparr>shape = [2, 1], data = [1, 1]\<rparr> \<lparr>shape = [2, 1], data = [0, 0]\<rparr> = Inr (2 + 2)"
    by (simp add: demo_env_def demo_batch_def)
qed




subsection \<open>Every call of a test pass\<close>

lemma test_ops_no_grad_op: "k \<in> set (test_ops config e bs) \<Longrightarrow> \<not> is_grad_op k"
  by (auto simp: test_ops_def test_step_ops_def split: if_splits)

lemma test_ops_forward:
  "k \<in> set (test_ops config e bs) \<Longrightarrow> is_forward k \<Longrightarrow> \<exists>x. k = OpForward False False x"
  by (auto simp: test_ops_def test_step_ops_def split: if_splits)

text \<open>
  C9. Whatever its outcome, a test pass leaves the parameters, the gradients and the
  optimizer state as they were and restores the autograd switch; it calls neither
  \<^verbatim>\<open>zero_grad\<close> nor \<^verbatim>\<open>backward\<close> nor the optimizer step, and each of its forward
  passes runs in evaluation mode with autograd off. In the loop over the epochs, the
  test pass of an epoch starts in the state its training pass returned, so the test
  loss added to the history is computed with the parameters of that training pass.
\<close>

theorem test_leaves_model_unchanged:
  "(test env config dc test_loader e s = (r, s', t) \<longrightarrow>
      params s' = params s \<and> grads s' = grads s \<and> opt_state s' = opt_state s \<and>
      grad_enabled s' = grad_enabled s \<and>
      (\<forall>k \<in> set (map op_of t). \<not> is_grad_op k) \<and>
      (\<forall>k \<in> set (map op_of t). is_forward k \<longrightarrow> (\<exists>x. k = OpForward False False x))) \<and>
   (train env config optimizer train_loader e s0 = (Inr epoch_train_loss, s, t0) \<longrightarrow>
    test env config dc test_loader e s = (Inr epoch_test_loss, s', t) \<longrightarrow>
      epoch_loop env config dc optimizer train_loader test_loader (e # rest) hist s0 =
        (case epoch_loop env config dc optimizer train_loader test_loader rest
                (fst hist @ epoch_train_loss, snd hist @ [epoch_test_loss]) s' of
           (r', s'', t') \<Rightarrow> (r', s'', t0 @ t @ t')))"
proof (intro conjI impI)
  assume a: "test env config dc test_loader e s = (r, s', t)"
  from keeps_modelD [OF keeps_model_test a]
  show "params s' = params s" and "grads s' = grads s" and "opt_state s' = opt_state s"
    by (simp_all add: same_model_def)
  from test_trace(4) [OF a] show "grad_enabled s' = grad_enabled s" .
  from test_trace(1) [OF a]
  have sub: "set (map op_of t) \<subseteq> set (test_ops config e (fst (batches test_loader (world s))))"
    by (rule set_mono_prefix)
  from sub show "\<forall>k \<in> set (map op_of t). \<not> is_grad_op k"
    using test_ops_no_grad_op by blast
  from sub show "\<forall>k \<in> set (map op_of t). is_forward k \<longrightarrow> (\<exists>x. k = OpForward False False x)"
    using test_ops_forward by blast
next
  assume "train env config optimizer train_loader e s0 = (Inr epoch_train_loss, s, t0)"
    and "test env config dc test_loader e s = (Inr epoch_test_loss, s', t)"
  then show "epoch_loop env config dc optimizer train_loader test_loader (e # rest) hist s0 =
        (case epoch_loop env config dc optimizer train_loader test_loader rest
                (fst hist @ epoch_train_loss, snd hist @ [epoch_test_loss]) s' of
           (r', s'', t') \<Rightarrow> (r', s'', t0 @ t @ t'))"
    by (simp add: bind_def split: prod.splits)
qed

theorem test_leaves_model_unchanged_witness:
  "fst (snd (test (demo_env 100 RuntimeError) (demo_config 2) demo_data_config
      demo_test_loader 1
      \<lparr>params = 3, grads = 12, opt_state = 3, training = True, grad_enabled = True,
         world = 4\<rparr>)) =
     \<lparr>params = 3, grads = 12, opt_state = 3, training = False, grad_enabled = True, world = 8\<rparr> \<and>
   fst (epoch_loop (demo_env 100 RuntimeError) (demo_config 2) demo_data_config (Adam 1)
      demo_train_loader demo_test_loader [1] ([], []) demo_state) = Inr ([0, 2, 6], [12])"
  using test_leaves_model_unchanged [of "demo_env 100 RuntimeError" "demo_config 2"
      demo_data_config demo_test_loader 1
      "\<lparr>params = 3, grads = 12, opt_state = 3, training = True, grad_enabled = True, world = 4\<rparr>"
      "Inr 12"
      "\<lparr>params = 3, grads = 12, opt_state = 3, training = False, grad_enabled = True, world = 8\<rparr>"
      _ "Adam 1" demo_train_loader demo_state "[0, 2, 6]" _ 12 "[]" "([], [])"]
  by (simp add: demo_train demo_test return_def)

subsection \<open>The module level\<close>

text \<open>
  C7. With an \<^verbatim>\<open>--optimizer\<close> other than \<^verbatim>\<open>adam\<close>, \<^verbatim>\<open>adagrad\<close> and \<^verbatim>\<open>adadelta\<close> the script
  raises \<^verbatim>\<open>AssertionError\<close> without having made a single call and without having changed
  the state. For these three values the optimizer is Adam, Adagrad and Adadelta, with the
  learning rate of the arguments, and it is the optimizer the script logs and hands to
  \<^verbatim>\<open>main\<close>.
\<close>

theorem optimizer_choice:
  "(arg_optimizer a \<notin> {''adam'', ''adagrad'', ''adadelta''} \<longrightarrow>
      script env a s = (Inl AssertionError, s, [])) \<and>
   (arg_optimizer a = ''adam'' \<longrightarrow> select_optimizer a = Inr (Adam (arg_lr a))) \<and>
   (arg_optimizer a = ''adagrad'' \<longrightarrow> select_optimizer a = Inr (Adagrad (arg_lr a))) \<and>
   (arg_optimizer a = ''adadelta'' \<longrightarrow> select_optimizer a = Inr (Adadelta (arg_lr a))) \<and>
   (\<forall>optimizer. select_optimizer a = Inr optimizer \<longrightarrow>
      script env a s =
        bind (call_io env (LogModelOptimizer optimizer))
          (\<lambda>_. main env (make_config env a) data_config optimizer
                 (fst (stl10_loaders env (arg_batch_size a)))
                 (snd (stl10_loaders env (arg_batch_size a)))) s)"
proof (intro conjI impI allI)
  assume "arg_optimizer a \<notin> {''adam'', ''adagrad'', ''adadelta''}"
  then have "select_optimizer a = Inl AssertionError"
    by (simp add: select_optimizer_def)
  then show "script env a s = (Inl AssertionError, s, [])"
    by (simp add: script_def bind_def lift_def split: prod.splits)
next
  assume "arg_optimizer a = ''adam''"
  then show "select_optimizer a = Inr (Adam (arg_lr a))"
    by (simp add: select_optimizer_def)
next
  assume "arg_optimizer a = ''adagrad''"
  then show "select_optimizer a = Inr (Adagrad (arg_lr a))"
    by (simp add: select_optimizer_def)
next
  assume "arg_optimizer a = ''adadelta''"
  then show "select_optimizer a = Inr (Adadelta (arg_lr a))"
    by (simp add: select_optimizer_def)
next
  fix optimizer
  assume "select_optimizer a = Inr optimizer"
  then show "script env a s =
        bind (call_io env (LogModelOptimizer optimizer))
          (\<lambda>_. main env (make_config env a) data_config optimizer
                 (fst (stl10_loaders env (arg_batch_size a)))
                 (snd (stl10_loaders env (arg_batch_size a)))) s"
    by (simp add: script_def make_config_def bind_def lift_def split: prod.splits)
qed

theorem optimizer_choice_witness:
  "arg_optimizer (demo_args ''sgd'') \<notin> {''adam'', ''adagrad'', ''adadelta''} \<and>
   script (demo_env 100 RuntimeError) (demo_args ''sgd'') demo_state =
     (Inl AssertionError, demo_state, []) \<and>
   select_optimizer (demo_args ''adam'') = Inr (Adam 1) \<and>
   select_optimizer (demo_args ''adagrad'') = Inr (Adagrad 1) \<and>
   select_optimizer (demo_args ''adadelta'') = Inr (Adadelta 1) \<and>
   take 1 (snd (snd (script (demo_env 100 RuntimeError) (demo_args ''adagrad'') demo_state))) =
     [LogModelOptimizer (Adagrad 1)]"
proof -
  have opt: "select_optimizer (demo_args ''adagrad'') = Inr (Adagrad 1)"
    using optimizer_choice [of "demo_args ''adagrad''" "demo_env 100 RuntimeError" demo_state]
    by (simp add: demo_args_def)
  have log: "call_io (demo_env 100 RuntimeError) (LogModelOptimizer (Adagrad 1)) demo_state =
      (Inr (), demo_state\<lparr>world := 1\<rparr>, [LogModelOptimizer (Adagrad 1)])"
    by (simp add: call_io_def demo_env_def demo_state_def)
  from optimizer_choice [of "demo_args ''adagrad''" "demo_env 100 RuntimeError" demo_state] opt
  have "script (demo_env 100 RuntimeError) (demo_args ''adagrad'') demo_state =
        bind (call_io (demo_env 100 RuntimeError) (LogModelOptimizer (Adagrad 1)))
          (\<lambda>_. main (demo_env 100 RuntimeError)
                 (make_config (demo_env 100 RuntimeError) (demo_args ''adagrad'')) data_config
                 (Adagrad 1)
                 (fst (stl10_loaders (demo_env 100 RuntimeError)
                    (arg_batch_size (demo_args ''adagrad''))))
                 (snd (stl10_loaders (demo_env 100 RuntimeError)
                    (arg_batch_size (demo_args ''adagrad''))))) demo_state"
    by blast
  then have "take 1 (snd (snd (script (demo_env 100 RuntimeError) (demo_args ''adagrad'')
      demo_state))) = [LogModelOptimizer (Adagrad 1)]"
    by (simp add: bind_def log split: prod.splits)
  moreover have "arg_optimizer (demo_args ''sgd'') \<notin> {''adam'', ''adagrad'', ''adadelta''}"
    by (simp add: demo_args_def)
  moreover from this have "script (demo_env 100 RuntimeError) (demo_args ''sgd'') demo_state =
     (Inl AssertionError, demo_state, [])"
    using optimizer_choice [of "demo_args ''sgd''" "demo_env 100 RuntimeError" demo_state]
    by blast
  moreover have "select_optimizer (demo_args ''adam'') = Inr (Adam 1)"
    using optimizer_choice [of "demo_args ''adam''" "demo_env 100 RuntimeError" demo_state]
    by (simp add: demo_args_def)
  moreover have "select_optimizer (demo_args ''adadelta'') = Inr (Adadelta 1)"
    using optimizer_choice [of "demo_args ''adadelta''" "demo_env 100 RuntimeError" demo_state]
    by (simp add: demo_args_def)
  ultimately show ?thesis
    using opt by blast
qed

subsection \<open>No loss history before the loop has ended\<close>

lemma is_save_training_data_op:
  "is_save_training_data ev \<Longrightarrow> \<exists>d. op_of ev = OpSaveTrainingData d"
  by (cases ev) simp_all

lemma train_ops_no_save: "OpSaveTrainingData x \<notin> set (train_ops config ge e bs)"
  by (auto simp: train_ops_def train_step_ops_def gradient_step_ops_def split: if_splits)

lemma test_ops_no_save: "OpSaveTrainingData x \<notin> set (test_ops config e bs)"
  by (auto simp: test_ops_def test_step_ops_def split: if_splits)

lemma train_no_save:
  assumes "train env config optimizer ld e s = (r, s', t)"
  shows "filter is_save_training_data t = []"
proof -
  from train_trace(1) [OF assms]
  have "set (map op_of t) \<subseteq> set (train_ops config (grad_enabled s) e (fst (batches ld (world s))))"
    by (rule set_mono_prefix)
  with train_ops_no_save have "\<And>ev. ev \<in> set t \<Longrightarrow> \<not> is_save_training_data ev"
    by (fastforce dest: is_save_training_data_op)
  then show ?thesis
    by (simp add: filter_empty_conv)
qed

lemma test_no_save:
  assumes "test env config dc ld e s = (r, s', t)"
  shows "filter is_save_training_data t = []"
proof -
  from test_trace(1) [OF assms]
  have "set (map op_of t) \<subseteq> set (test_ops config e (fst (batches ld (world s))))"
    by (rule set_mono_prefix)
  with test_ops_no_save have "\<And>ev. ev \<in> set t \<Longrightarrow> \<not> is_save_training_data ev"
    by (fastforce dest: is_save_training_data_op)
  then show ?thesis
    by (simp add: filter_empty_conv)
qed

lemma epoch_loop_no_save:
  "epoch_loop env config dc optimizer trl tel es hist s = (r, s', t) \<Longrightarrow>
     filter is_save_training_data t = []"
proof (induction es arbitrary: hist s t)
  case Nil
  then show ?case by (simp add: return_def)
next
  case (Cons e es)
  from Cons.prems have b: "bind (train env config optimizer trl e) (\<lambda>epoch_train_loss.
     bind (test env config dc tel e) (\<lambda>epoch_test_loss.
     epoch_loop env config dc optimizer trl tel es
       (fst hist @ epoch_train_loss, snd hist @ [epoch_test_loss]))) s = (r, s', t)"
    by simp
  from b show ?case
  proof (cases rule: bind_cases)
    case (raised x)
    then show ?thesis by (simp add: train_no_save)
  next
    case (returned el s1 t1 t2)
    from returned(2) have "filter is_save_training_data t2 = []"
    proof (cases rule: bind_cases)
      case (raised x)
      then show ?thesis by (simp add: test_no_save)
    next
      case (returned tl s2 t3 t4)
      with Cons.IH [OF returned(2)] show ?thesis
        by (simp add: test_no_save)
    qed
    with returned(1,3) show ?thesis
      by (simp add: train_no_save)
  qed
qed

lemma start_training_loop_raises:
  assumes "epoch_loop env config dc optimizer trl tel [1..epochs config] ([], []) s =
      (Inl e, s', t)"
  shows "start_training env config dc optimizer trl tel s = (Inl e, s', t)"
  using assms by (simp add: start_training_def bind_def)

text \<open>
  C8, as amended. When an epoch's training or test pass raises, \<^verbatim>\<open>main\<close> catches the
  exception if it is an instance of \<^verbatim>\<open>Exception\<close>: it prints the formatted traceback
  and returns it. An exception that is not an instance of \<^verbatim>\<open>Exception\<close> leaves
  \<^verbatim>\<open>main\<close>. In both cases \<^verbatim>\<open>save_training_data\<close> is not called.
\<close>

theorem main_catches_exceptions:
  assumes "call_io env (MakeDirectory (output_dir_name config)) s = (Inr (), s0, t0)"
    and "epoch_loop env config dc optimizer train_loader test_loader [1..epochs config]
           ([], []) s0 = (Inl e, s1, t1)"
  shows "main env config dc optimizer train_loader test_loader s =
           (if is_Exception e
            then (Inr (Some (format_exc env e)), s1,
                  t0 @ t1 @ [PrintTraceback (format_exc env e)])
            else (Inl e, s1, t0 @ t1)) \<and>
         filter is_save_training_data
           (snd (snd (main env config dc optimizer train_loader test_loader s))) = []"
proof -
  from call_io_Inr [OF assms(1)] have t0: "t0 = [MakeDirectory (output_dir_name config)]" .
  note st = start_training_loop_raises [OF assms(2)]
  have m: "main env config dc optimizer train_loader test_loader s =
           (if is_Exception e
            then (Inr (Some (format_exc env e)), s1,
                  t0 @ t1 @ [PrintTraceback (format_exc env e)])
            else (Inl e, s1, t0 @ t1))"
    by (simp add: main_def bind_def try_except_Exception_def emit_def return_def st assms(1))
  from epoch_loop_no_save [OF assms(2)] t0 m show ?thesis
    by simp
qed

lemma demo_make_directory:
  "call_io (demo_env n x) (MakeDirectory (output_dir_name (demo_config 2))) demo_state =
     (Inr (), demo_state\<lparr>world := 1\<rparr>, [MakeDirectory ''results''])"
  by (simp add: call_io_def demo_env_def demo_state_def demo_config_def)

lemma demo_failing_loop:
  "fst (epoch_loop (demo_env 4 x) (demo_config 2) demo_data_config (Adam 1) demo_train_loader
     demo_test_loader [1..epochs (demo_config 2)] ([], []) (demo_state\<lparr>world := 1\<rparr>)) = Inl x"
  by (simp add: prog_defs demo_defs str_nat.simps upto.simps)

theorem main_catches_exceptions_witness:
  "fst (main (demo_env 4 RuntimeError) (demo_config 2) demo_data_config (Adam 1)
     demo_train_loader demo_test_loader demo_state) =
     Inr (Some ''Traceback (most recent call last)'') \<and>
   filter is_save_training_data
     (snd (snd (main (demo_env 4 RuntimeError) (demo_config 2) demo_data_config (Adam 1)
        demo_train_loader demo_test_loader demo_state))) = []"
proof -
  let ?loop = "epoch_loop (demo_env 4 RuntimeError) (demo_config 2) demo_data_config (Adam 1)
     demo_train_loader demo_test_loader [1..epochs (demo_config 2)] ([], [])
     (demo_state\<lparr>world := 1\<rparr>)"
  have h: "?loop = (Inl RuntimeError, fst (snd ?loop), snd (snd ?loop))"
    using demo_failing_loop [of RuntimeError] by (simp add: prod_eq_iff)
  have fe: "format_exc (demo_env 4 RuntimeError) RuntimeError =
      ''Traceback (most recent call last)''"
    by (simp add: demo_env_def)
  note r = main_catches_exceptions [OF demo_make_directory h]
  from r [THEN conjunct1]
  have "fst (main (demo_env 4 RuntimeError) (demo_config 2) demo_data_config (Adam 1)
     demo_train_loader demo_test_loader demo_state) =
     Inr (Some ''Traceback (most recent call last)'')"
    by (simp add: fe)
  with r [THEN conjunct2] show ?thesis
    by (intro conjI)
qed

text \<open>
  C8 as stated fails: a \<^verbatim>\<open>KeyboardInterrupt\<close> raised by the model in the second epoch's
  training pass leaves \<^verbatim>\<open>main\<close>; no traceback is returned.
\<close>

theorem main_propagates_keyboard_interrupt:
  "fst (epoch_loop (demo_env 4 KeyboardInterrupt) (demo_config 2) demo_data_config (Adam 1)
     demo_train_loader demo_test_loader [1..epochs (demo_config 2)] ([], [])
     (demo_state\<lparr>world := 1\<rparr>)) = Inl KeyboardInterrupt \<and>
   fst (main (demo_env 4 KeyboardInterrupt) (demo_config 2) demo_data_config (Adam 1)
     demo_train_loader demo_test_loader demo_state) = Inl KeyboardInterrupt"
  by (simp add: prog_defs demo_defs str_nat.simps upto.simps)

subsection \<open>A run of all epochs\<close>

lemma test_values:
  assumes "test env config dc ld e s = (Inr test_loss, s', t)"
  shows "backward_losses t = []" and "printed_test_losses t = [test_loss]"
proof -
  from assms obtain x s1 t1 where
    loop: "test_loop env config dc e 0 (fst (batches ld (world s))) (float_of_int env 0)
       (s\<lparr>training := False, grad_enabled := False, world := snd (batches ld (world s))\<rparr>) =
     (Inr x, s1, t1)"
    and t: "t = ModelEval # IterLoader False # t1 @ [PrintTestLoss test_loss]"
    by (rule test_Inr)
  from test_loop_Inr [OF loop] t
  show "backward_losses t = []" and "printed_test_losses t = [test_loss]"
    by (simp_all add: backward_losses_def printed_test_losses_def map_filter_append)
qed

lemma epoch_loop_Inr:
  "epoch_loop env config dc optimizer trl tel es hist s = (Inr hist', s', t) \<Longrightarrow>
     \<exists>passes. length passes = length es \<and>
       (\<forall>p \<in> set passes. (\<exists>w. fst p = fst (batches trl w)) \<and>
                           (\<exists>w. snd p = fst (batches tel w))) \<and>
       map op_of t = concat (map (epoch_ops config (grad_enabled s)) (zip es passes)) \<and>
       fst hist' =
         fst hist @ map2 (per_sample env) (backward_losses t) (concat (map fst passes)) \<and>
       length (backward_losses t) = length (concat (map fst passes)) \<and>
       snd hist' = snd hist @ printed_test_losses t \<and>
       length (printed_test_losses t) = length es"
proof (induction es arbitrary: hist s t)
  case Nil
  then show ?case
    by (simp add: return_def backward_losses_def printed_test_losses_def)
next
  case (Cons e es)
  from Cons.prems obtain el s1 t1 tl s2 t2 t3 where
    tr: "train env config optimizer trl e s = (Inr el, s1, t1)"
    and te: "test env config dc tel e s1 = (Inr tl, s2, t2)"
    and lp: "epoch_loop env config dc optimizer trl tel es (fst hist @ el, snd hist @ [tl]) s2 =
        (Inr hist', s', t3)"
    and t: "t = t1 @ t2 @ t3"
    by (auto elim!: bind_Inr)
  let ?tb = "fst (batches trl (world s))"
  let ?eb = "fst (batches tel (world s1))"
  from train_trace(2,4) [OF tr]
  have o1: "map op_of t1 = train_ops config (grad_enabled s) e ?tb"
    and g1: "grad_enabled s1 = grad_enabled s"
    by simp_all
  from test_trace(2,4) [OF te]
  have o2: "map op_of t2 = test_ops config e ?eb" and g2: "grad_enabled s2 = grad_enabled s1"
    by simp_all
  note v1 = train_Inr [OF tr]
  note v2 = test_values [OF te]
  from Cons.IH [OF lp] obtain passes where
    p: "length passes = length es"
    "\<forall>p \<in> set passes. (\<exists>w. fst p = fst (batches trl w)) \<and> (\<exists>w. snd p = fst (batches tel w))"
    "map op_of t3 = concat (map (epoch_ops config (grad_enabled s2)) (zip es passes))"
    "fst hist' = (fst hist @ el) @
       map2 (per_sample env) (backward_losses t3) (concat (map fst passes))"
    "length (backward_losses t3) = length (concat (map fst passes))"
    "snd hist' = (snd hist @ [tl]) @ printed_test_losses t3"
    "length (printed_test_losses t3) = length es"
    by auto
  have bl: "backward_losses t = backward_losses t1 @ backward_losses t3"
    and pl: "printed_test_losses t = tl # printed_test_losses t3"
    using t v1(3) v2
    by (simp_all add: backward_losses_def printed_test_losses_def map_filter_append)
  let ?passes = "(?tb, ?eb) # passes"
  have "length ?passes = length (e # es)"
    using p(1) by simp
  moreover have "\<forall>p \<in> set ?passes. (\<exists>w. fst p = fst (batches trl w)) \<and>
       (\<exists>w. snd p = fst (batches tel w))"
    using p(2) by auto
  moreover have "map op_of t =
      concat (map (epoch_ops config (grad_enabled s)) (zip (e # es) ?passes))"
    using t o1 o2 p(3) g1 g2 by (simp add: epoch_ops_def)
  moreover have "fst hist' = fst hist @
      map2 (per_sample env) (backward_losses t) (concat (map fst ?passes))"
    using p(4) v1(1,2) bl by simp
  moreover have "length (backward_losses t) = length (concat (map fst ?passes))"
    using p(5) v1(2) bl by simp
  moreover have "snd hist' = snd hist @ printed_test_losses t"
    using p(6) pl by simp
  moreover have "length (printed_test_losses t) = length (e # es)"
    using p(7) pl by simp
  ultimately show ?case
    by blast
qed

lemma start_training_Inr:
  assumes "start_training env config dc optimizer trl tel s = (Inr u, s', t)"
  obtains hist s1 t1 where
    "epoch_loop env config dc optimizer trl tel [1..epochs config] ([], []) s = (Inr hist, s1, t1)"
    and "t = t1 @ [SaveTrainingData (fst hist) (snd hist) (output_dir_name config)]"
proof -
  from assms obtain hist s1 t1 t2 where
    lp: "epoch_loop env config dc optimizer trl tel [1..epochs config] ([], []) s =
        (Inr hist, s1, t1)"
    and io: "call_io env (SaveTrainingData (fst hist) (snd hist) (output_dir_name config)) s1 =
        (Inr u, s', t2)"
    and t: "t = t1 @ t2"
    unfolding start_training_def case_prod_unfold
    by (elim bind_Inr)
  from call_io_Inr [OF io] t lp show ?thesis
    by (intro that [of hist s1 t1]) simp_all
qed

lemma demo_start_training:
  "start_training (demo_env 100 RuntimeError) (demo_config 2) demo_data_config (Adam 1)
     demo_train_loader demo_test_loader demo_state =
   (Inr (),
    fst (snd (start_training (demo_env 100 RuntimeError) (demo_config 2) demo_data_config
      (Adam 1) demo_train_loader demo_test_loader demo_state)),
    snd (snd (start_training (demo_env 100 RuntimeError) (demo_config 2) demo_data_config
      (Adam 1) demo_train_loader demo_test_loader demo_state)))"
proof -
  have "fst (start_training (demo_env 100 RuntimeError) (demo_config 2) demo_data_config
      (Adam 1) demo_train_loader demo_test_loader demo_state) = Inr ()"
    by (simp add: prog_defs demo_defs str_nat.simps upto.simps)
  then show ?thesis
    by (simp add: prod_eq_iff)
qed

lemma demo_start_training_saved:
  "filter is_save_training_data
     (snd (snd (start_training (demo_env 100 RuntimeError) (demo_config 2) demo_data_config
        (Adam 1) demo_train_loader demo_test_loader demo_state))) =
   [SaveTrainingData [0, 2, 6, 12, 20, 30] [12, 42] ''results'']"
  by (simp add: prog_defs demo_defs str_nat.simps upto.simps)

text \<open>
  C3. A run of \<^verbatim>\<open>start_training\<close> that returns is made of one epoch for each number from
  \<open>1\<close> to \<open>epochs\<close>, in this order and nothing else (none when \<open>epochs\<close> is not positive),
  followed by the call of \<^verbatim>\<open>save_training_data\<close>. Each epoch is a training pass over all
  batches of one iteration of the training loader, with the gradient calls of every
  step, followed by a test pass over all batches of one iteration of the test loader,
  with forward passes and losses only. The training history handed over holds the
  per-sample loss of every training step in order, and the test history holds the test
  loss of every epoch in order.
\<close>

theorem epochs_run:
  assumes "start_training env config dc optimizer train_loader test_loader s = (Inr u, s', t)"
  shows "\<exists>passes historic_training_loss historic_testing_loss t'.
     t = t' @ [SaveTrainingData historic_training_loss historic_testing_loss
                 (output_dir_name config)] \<and>
     length passes = nat (epochs config) \<and>
     (\<forall>p \<in> set passes. (\<exists>w. fst p = fst (batches train_loader w)) \<and>
                         (\<exists>w. snd p = fst (batches test_loader w))) \<and>
     map op_of t' =
       concat (map (epoch_ops config (grad_enabled s)) (zip [1..epochs config] passes)) \<and>
     historic_training_loss =
       map2 (per_sample env) (backward_losses t') (concat (map fst passes)) \<and>
     length (backward_losses t') = length (concat (map fst passes)) \<and>
     historic_testing_loss = printed_test_losses t' \<and>
     length historic_testing_loss = nat (epochs config)"
proof -
  from assms obtain hist s1 t1 where
    lp: "epoch_loop env config dc optimizer train_loader test_loader [1..epochs config]
       ([], []) s = (Inr hist, s1, t1)"
    and t: "t = t1 @ [SaveTrainingData (fst hist) (snd hist) (output_dir_name config)]"
    by (rule start_training_Inr)
  from epoch_loop_Inr [OF lp] obtain passes where
    "length passes = length [1..epochs config]"
    "\<forall>p \<in> set passes. (\<exists>w. fst p = fst (batches train_loader w)) \<and>
       (\<exists>w. snd p = fst (batches test_loader w))"
    "map op_of t1 =
       concat (map (epoch_ops config (grad_enabled s)) (zip [1..epochs config] passes))"
    "fst hist = map2 (per_sample env) (backward_losses t1) (concat (map fst passes))"
    "length (backward_losses t1) = length (concat (map fst passes))"
    "snd hist = printed_test_losses t1"
    "length (printed_test_losses t1) = length [1..epochs config]"
    by auto
  with t show ?thesis
    by (intro exI [of _ passes] exI [of _ "fst hist"] exI [of _ "snd hist"] exI [of _ t1])
      simp
qed

theorem epochs_run_witness:
  "\<exists>passes historic_training_loss historic_testing_loss t'.
     snd (snd (start_training (demo_env 100 RuntimeError) (demo_config 2) demo_data_config
        (Adam 1) demo_train_loader demo_test_loader demo_state)) =
       t' @ [SaveTrainingData historic_training_loss historic_testing_loss ''results''] \<and>
     length passes = 2 \<and>
     map op_of t' =
       concat (map (epoch_ops (demo_config 2) True) (zip [1, 2] passes)) \<and>
     historic_training_loss = [0, 2, 6, 12, 20, 30] \<and>
     historic_testing_loss = [12, 42]"
proof -
  from epochs_run [OF demo_start_training]
  obtain passes historic_training_loss historic_testing_loss t' where
    t: "snd (snd (start_training (demo_env 100 RuntimeError) (demo_config 2) demo_data_config
        (Adam 1) demo_train_loader demo_test_loader demo_state)) =
       t' @ [SaveTrainingData historic_training_loss historic_testing_loss
               (output_dir_name (demo_config 2))]"
    and p: "length passes = nat (epochs (demo_config 2))"
    and o: "map op_of t' = concat (map (epoch_ops (demo_config 2) (grad_enabled demo_state))
        (zip [1..epochs (demo_config 2)] passes))"
    by blast
  have c: "output_dir_name (demo_config 2) = ''results''" "epochs (demo_config 2) = 2"
    "grad_enabled demo_state = True" "[1..2::int] = [1, 2]"
    by (simp_all add: demo_config_def demo_state_def upto.simps)
  from t have "filter is_save_training_data
     (snd (snd (start_training (demo_env 100 RuntimeError) (demo_config 2) demo_data_config
        (Adam 1) demo_train_loader demo_test_loader demo_state))) =
     filter is_save_training_data t' @
       [SaveTrainingData historic_training_loss historic_testing_loss ''results'']"
    by (simp add: c)
  with demo_start_training_saved
  have "historic_training_loss = [0, 2, 6, 12, 20, 30]" "historic_testing_loss = [12, 42]"
    by (simp_all add: append_eq_Cons_conv Cons_eq_append_conv)
  with t p o c show ?thesis
    by (intro exI [of _ passes] exI [of _ historic_training_loss]
        exI [of _ historic_testing_loss] exI [of _ t']) simp
qed

subsection \<open>What a run writes\<close>









end
